theory Spec2Isabelle
  imports Main "HOL-Library.Sublist"
begin

section \<open>Data model: the relational tables of config/database.js\<close>

text \<open>
  Every table is the list of its rows. Columns that no modelled handler reads
  (timestamps, display names, the download URL, e-mail, password hash) are left out.
  Identifiers are the SERIAL keys, natural numbers; BIGINT byte counts are integers.
  The schema's PRIMARY KEY and UNIQUE constraints are not built into the lists: they are
  the predicates of the next section and appear as hypotheses where a proof needs them.

  A route handler is a function of the state it reads (the database, the object store,
  the cache) that returns an error response or its result with the state it leaves. The
  handlers behind \<open>authenticateToken\<close> take the id of the authenticated user. A query
  of the database is taken to succeed: the catch blocks that answer 500 when the database
  throws are not modelled, while failures of the object store and of the cache are.
\<close>

datatype permission_type = View | Create | Edit

text \<open>
  The computed column \<open>access_level\<close>: the string 'owner' or a permission_type;
  SQL NULL is \<open>None\<close> of the option type.
\<close>

datatype access_level = Owner | Shared permission_type

record users_row =
  u_id :: nat
  u_storage_quota :: int
  u_storage_used :: int

record folders_row =
  fo_id :: nat
  fo_user_id :: nat
  fo_parent_folder_id :: "nat option"

record files_row =
  f_id :: nat
  f_user_id :: nat
  f_folder_id :: "nat option"
  f_name :: string
  f_original_name :: string
  f_mime_type :: string
  f_size :: int
  f_backblaze_file_id :: nat
  f_public_share_token :: "string option"
  f_is_public :: bool
  f_download_count :: nat
  f_thumbnail_path :: "string option"
  f_thumbnail_backblaze_file_id :: "nat option"
  f_has_thumbnail :: bool

record permissions_row =
  p_folder_id :: nat
  p_shared_with_user_id :: nat
  p_permission_type :: permission_type
  p_granted_by_user_id :: nat

record coupons_row =
  c_id :: nat
  c_code :: string
  c_storage_bonus :: int
  c_max_uses :: int
  c_current_uses :: int
  c_expires_at :: "int option"
  c_is_active :: bool

record coupon_redemptions_row =
  cr_user_id :: nat
  cr_coupon_id :: nat
  cr_storage_granted :: int

record db =
  users :: "users_row list"
  folders :: "folders_row list"
  files :: "files_row list"
  permissions :: "permissions_row list"
  coupons :: "coupons_row list"
  coupon_redemptions :: "coupon_redemptions_row list"
  files_id_seq :: nat

text \<open>An HTTP error response: status code and the \<open>error\<close> string of the JSON body.\<close>

datatype error = Status nat string

subsection \<open>Schema constraints\<close>

definition folders_pkey :: "db \<Rightarrow> bool" where
  "folders_pkey d = distinct (map fo_id (folders d))"

definition files_pkey :: "db \<Rightarrow> bool" where
  "files_pkey d = distinct (map f_id (files d))"

definition users_pkey :: "db \<Rightarrow> bool" where
  "users_pkey d = distinct (map u_id (users d))"

text \<open>UNIQUE(folder_id, shared_with_user_id) of table permissions.\<close>

definition permissions_unique :: "db \<Rightarrow> bool" where
  "permissions_unique d =
     distinct (map (\<lambda>p. (p_folder_id p, p_shared_with_user_id p)) (permissions d))"

text \<open>UNIQUE(code) of table coupons.\<close>

definition coupons_code_unique :: "db \<Rightarrow> bool" where
  "coupons_code_unique d = distinct (map c_code (coupons d))"

text \<open>UNIQUE(public_share_token) of table files: two rows with the same non-null token are one.\<close>

definition share_token_unique :: "db \<Rightarrow> bool" where
  "share_token_unique d =
     (\<forall>x \<in> set (files d). \<forall>y \<in> set (files d).
        f_public_share_token x \<noteq> None \<and> f_public_share_token x = f_public_share_token y
          \<longrightarrow> f_id x = f_id y)"

section \<open>Permission resolution\<close>

text \<open>
  \<open>a LEFT JOIN b ON on\<close>: every row of \<open>a\<close> paired with each matching row of \<open>b\<close>, or
  once with NULL when none matches.
\<close>

definition left_join :: "'a list \<Rightarrow> 'b list \<Rightarrow> ('a \<Rightarrow> 'b \<Rightarrow> bool) \<Rightarrow> ('a \<times> 'b option) list" where
  "left_join xs ys on =
     concat (map (\<lambda>x. case filter (on x) ys of
                          [] \<Rightarrow> [(x, None)]
                        | ms \<Rightarrow> map (\<lambda>y. (x, Some y)) ms) xs)"

text \<open>
  \<open>CASE WHEN f.user_id = $1 THEN 'owner' ELSE p.permission_type END\<close>, where \<open>p\<close> is the
  joined permissions row or NULL.
\<close>

definition access_level_of :: "nat \<Rightarrow> nat \<Rightarrow> permissions_row option \<Rightarrow> access_level option" where
  "access_level_of row_user_id uid p =
     (if row_user_id = uid then Some Owner
      else map_option (\<lambda>g. Shared (p_permission_type g)) p)"

text \<open>\<open>(f.user_id = $1 OR p.shared_with_user_id = $1)\<close>; a comparison with NULL is not true.\<close>

definition owner_or_shared :: "nat \<Rightarrow> nat \<Rightarrow> permissions_row option \<Rightarrow> bool" where
  "owner_or_shared row_user_id uid p =
     (row_user_id = uid \<or> (case p of None \<Rightarrow> False | Some g \<Rightarrow> p_shared_with_user_id g = uid))"

text \<open>
  The folder query of routes/folders.js (GET, PUT and DELETE /:folderId):
  \<^verbatim>\<open>SELECT f.*, CASE ... END as access_level FROM folders f
  LEFT JOIN permissions p ON f.id = p.folder_id AND p.shared_with_user_id = $1
  WHERE f.id = $2 AND (f.user_id = $1 OR p.shared_with_user_id = $1)\<close>
\<close>

definition folder_access_rows :: "db \<Rightarrow> nat \<Rightarrow> nat \<Rightarrow> (folders_row \<times> access_level option) list" where
  "folder_access_rows d uid folderId =
     map (\<lambda>(f, p). (f, access_level_of (fo_user_id f) uid p))
       (filter (\<lambda>(f, p). fo_id f = folderId \<and> owner_or_shared (fo_user_id f) uid p)
         (left_join (folders d) (permissions d)
            (\<lambda>f p. fo_id f = p_folder_id p \<and> p_shared_with_user_id p = uid)))"

text \<open>
  GET /:folderId. Its query also groups by \<open>f.id, p.permission_type\<close> (equal rows
  collapse) and counts subfolders and files; the two counts are not modelled. An empty
  result is the 404 response, otherwise \<open>result.rows[0]\<close> is returned.
\<close>

definition get_folder :: "db \<Rightarrow> nat \<Rightarrow> nat \<Rightarrow> error + (folders_row \<times> access_level option)" where
  "get_folder d uid folderId =
     (case remdups (folder_access_rows d uid folderId) of
        [] \<Rightarrow> Inl (Status 404 ''Folder not found or access denied'')
      | r # _ \<Rightarrow> Inr r)"

text \<open>
  \<^verbatim>\<open>SELECT permission_type FROM permissions WHERE folder_id = $1 AND shared_with_user_id = $2\<close>:
  the stored grant rows keyed by (folder, user), used by checkFolderPermission and the
  upload handlers.
\<close>

definition permission_rows :: "db \<Rightarrow> nat \<Rightarrow> nat \<Rightarrow> permissions_row list" where
  "permission_rows d folderId uid =
     filter (\<lambda>p. p_folder_id p = folderId \<and> p_shared_with_user_id p = uid) (permissions d)"

text \<open>\<open>permissionLevels = { view: 1, create: 2, edit: 3 }\<close> of middleware/auth.js.\<close>

fun permissionLevels :: "permission_type \<Rightarrow> nat" where
  "permissionLevels View = 1"
| "permissionLevels Create = 2"
| "permissionLevels Edit = 3"

text \<open>
  checkFolderPermission(requiredPermission) of middleware/auth.js; \<open>Inr ()\<close> is the call
  of \<open>next()\<close>.
\<close>

definition checkFolderPermission :: "permission_type \<Rightarrow> db \<Rightarrow> nat \<Rightarrow> nat \<Rightarrow> error + unit" where
  "checkFolderPermission requiredPermission d userId folderId =
     (case filter (\<lambda>f. fo_id f = folderId) (folders d) of
        [] \<Rightarrow> Inl (Status 404 ''Folder not found'')
      | folder # _ \<Rightarrow>
          if fo_user_id folder = userId then Inr ()
          else (case permission_rows d folderId userId of
                  [] \<Rightarrow> Inl (Status 403 ''Access denied'')
                | p # _ \<Rightarrow>
                    if permissionLevels (p_permission_type p) < permissionLevels requiredPermission
                    then Inl (Status 403 ''Insufficient permissions'')
                    else Inr ()))"

text \<open>
  The file query of routes/files.js (GET, DELETE, download, view and share of /:fileId):
  \<^verbatim>\<open>SELECT f.*, CASE ... END as access_level FROM files f
  LEFT JOIN permissions p ON f.folder_id = p.folder_id AND p.shared_with_user_id = $1
  WHERE f.id = $2 AND (f.user_id = $1 OR p.shared_with_user_id = $1)\<close>
  A NULL \<open>f.folder_id\<close> equals no \<open>p.folder_id\<close>.
\<close>

definition file_access_rows :: "db \<Rightarrow> nat \<Rightarrow> nat \<Rightarrow> (files_row \<times> access_level option) list" where
  "file_access_rows d uid fileId =
     map (\<lambda>(f, p). (f, access_level_of (f_user_id f) uid p))
       (filter (\<lambda>(f, p). f_id f = fileId \<and> owner_or_shared (f_user_id f) uid p)
         (left_join (files d) (permissions d)
            (\<lambda>f p. f_folder_id f = Some (p_folder_id p) \<and> p_shared_with_user_id p = uid)))"

text \<open>GET /:fileId.\<close>

definition get_file :: "db \<Rightarrow> nat \<Rightarrow> nat \<Rightarrow> error + (files_row \<times> access_level option)" where
  "get_file d uid fileId =
     (case file_access_rows d uid fileId of
        [] \<Rightarrow> Inl (Status 404 ''File not found or access denied'')
      | r # _ \<Rightarrow> Inr r)"

text \<open>
  The permissions rows that the file query joins to a file: the grant rows of the file's
  folder for the caller, none for a file in no folder.
\<close>

definition folder_grants :: "db \<Rightarrow> nat option \<Rightarrow> nat \<Rightarrow> permissions_row list" where
  "folder_grants d folder c = (case folder of None \<Rightarrow> [] | Some F \<Rightarrow> permission_rows d F c)"

text \<open>
  The access level a response carries: the \<open>access_level\<close> column of the returned
  row, and none for the 404 response.
\<close>

definition resolved_level :: "error + ('a \<times> access_level option) \<Rightarrow> access_level option" where
  "resolved_level r = (case r of Inl _ \<Rightarrow> None | Inr (_, a) \<Rightarrow> a)"

text \<open>The level of the stored grant: the permission_type of the row, none without a row.\<close>

definition granted_level :: "permissions_row list \<Rightarrow> access_level option" where
  "granted_level ps = (case ps of [] \<Rightarrow> None | p # _ \<Rightarrow> Some (Shared (p_permission_type p)))"

section \<open>Formatting of byte counts\<close>

text \<open>
  A number in a template literal is printed in decimal. \<open>digit_char\<close> is only applied
  to a digit (below 10).
\<close>

definition digit_char :: "nat \<Rightarrow> char" where
  "digit_char n = ''0123456789'' ! n"

function string_of_nat :: "nat \<Rightarrow> string" where
  "string_of_nat n =
     (if n < 10 then [digit_char n] else string_of_nat (n div 10) @ [digit_char (n mod 10)])"
  by pat_completeness auto
termination
  by (relation "measure id") auto

text \<open>
  \<open>(num / den).toFixed(2)\<close> for \<open>den > 0\<close>: the integer \<open>n\<close> nearest to
  \<open>100 * |num| / den\<close>, the larger one at a tie, printed with two decimals and the sign
  of a negative number kept. The handlers divide by \<open>1024 * 1024\<close> and
  \<open>1024 * 1024 * 1024\<close>, powers of two, so the quotient of a byte count below \<open>2^53\<close> is
  an exact double and the rounding is the one written here.
\<close>

definition toFixed2 :: "int \<Rightarrow> int \<Rightarrow> string" where
  "toFixed2 num den =
     (let n = nat ((2 * 100 * \<bar>num\<bar> + den) div (2 * den))
      in (if num < 0 then ''-'' else [])
         @ string_of_nat (n div 100) @ ''.''
         @ [digit_char (n mod 100 div 10), digit_char (n mod 10)])"

text \<open>
  \<^verbatim>\<open>const formatBytes = (bytes) => {
    const gb = bytes / (1024 * 1024 * 1024);
    return gb >= 1 ? `${gb.toFixed(2)}GB` : `${(bytes / (1024 * 1024)).toFixed(2)}MB`; };\<close>
\<close>

definition formatBytes :: "int \<Rightarrow> string" where
  "formatBytes bytes =
     (if bytes \<ge> 1024 * 1024 * 1024 then toFixed2 bytes (1024 * 1024 * 1024) @ ''GB''
      else toFixed2 bytes (1024 * 1024) @ ''MB'')"

section \<open>The object store (config/backblaze.js)\<close>

text \<open>
  Backblaze B2 is an external service. The model keeps the stored objects, each with
  the file id B2 gave it (an opaque string in the source, a number drawn from a counter
  here) and its name, and the names on which a request currently fails (an error of the
  network or of the service): \<open>uploadFile\<close> and \<open>deleteFile\<close> log such an error and
  throw it again, which is \<open>None\<close> here.
\<close>

record b2 =
  b2_objects :: "(nat \<times> string) list"
  b2_next_file_id :: nat
  b2_failing :: "string list"

definition uploadFile :: "b2 \<Rightarrow> string \<Rightarrow> (nat \<times> b2) option" where
  "uploadFile b fileName =
     (if fileName \<in> set (b2_failing b) then None
      else Some (b2_next_file_id b,
                 b\<lparr>b2_objects := (b2_next_file_id b, fileName) # b2_objects b,
                    b2_next_file_id := Suc (b2_next_file_id b)\<rparr>))"

text \<open>\<open>deleteFileVersion\<close> of an object that is not stored is an error of the service.\<close>

definition deleteFile :: "b2 \<Rightarrow> nat \<Rightarrow> string \<Rightarrow> b2 option" where
  "deleteFile b fileId fileName =
     (if fileName \<in> set (b2_failing b) \<or> (fileId, fileName) \<notin> set (b2_objects b) then None
      else Some (b\<lparr>b2_objects := removeAll (fileId, fileName) (b2_objects b)\<rparr>))"

section \<open>Quota ledger: upload, delete, statistics\<close>

text \<open>
  The error responses that carry more than a message: the 413 response of the upload
  handlers with its \<open>details\<close> object (requested size, availableSpace, quotaLimit).
\<close>

datatype response_error =
    Plain error
  | Insufficient_storage string string string

text \<open>
  An uploaded file as the handler has it: the fields multer gives, the two names the
  handler draws from \<open>crypto.randomUUID()\<close> (the blob's and the thumbnail's), and
  whether \<open>generateThumbnail\<close> produces an image from the buffer (sharp throws on a
  buffer it cannot decode). The buffer itself is not modelled.
\<close>

record incoming_file =
  up_originalname :: string
  up_mimetype :: string
  up_size :: int
  up_uniqueFileName :: string
  up_thumbnailName :: string
  up_thumbnail_generated :: bool

text \<open>
  The folder check of both upload handlers: an absent \<open>folder_id\<close> passes; otherwise
  the folder must exist and the caller must own it or hold a create or edit grant.
\<close>

definition upload_folder_check :: "db \<Rightarrow> nat \<Rightarrow> nat option \<Rightarrow> error + unit" where
  "upload_folder_check d uid folder_id =
     (case folder_id of
        None \<Rightarrow> Inr ()
      | Some fid \<Rightarrow>
          (case filter (\<lambda>f. fo_id f = fid) (folders d) of
             [] \<Rightarrow> Inl (Status 404 ''Folder not found'')
           | folder # _ \<Rightarrow>
               if fo_user_id folder \<noteq> uid then
                 (case permission_rows d fid uid of
                    [] \<Rightarrow> Inl (Status 403 ''Insufficient permissions to upload to this folder'')
                  | p # _ \<Rightarrow>
                      if p_permission_type p \<notin> {Create, Edit}
                      then Inl (Status 403 ''Insufficient permissions to upload to this folder'')
                      else Inr ())
               else Inr ()))"

text \<open>\<^verbatim>\<open>SELECT storage_quota, storage_used FROM users WHERE id = $1\<close>\<close>

definition user_storage_rows :: "db \<Rightarrow> nat \<Rightarrow> users_row list" where
  "user_storage_rows d uid = filter (\<lambda>u. u_id u = uid) (users d)"

text \<open>
  The persisted storage_used of a user, as the handlers read it:
  \<^verbatim>\<open>SELECT storage_used FROM users WHERE id = $1\<close>, one value per row found.
\<close>

definition storage_used_of :: "db \<Rightarrow> nat \<Rightarrow> int list" where
  "storage_used_of d uid = map u_storage_used (user_storage_rows d uid)"

text \<open>The persisted storage_quota of a user, one value per row found.\<close>

definition storage_quota_of :: "db \<Rightarrow> nat \<Rightarrow> int list" where
  "storage_quota_of d uid = map u_storage_quota (user_storage_rows d uid)"

text \<open>
  The quota check of POST /upload/multiple, on the values just read from the user's row
  and the sizes of all files of the request.
\<close>

definition totalUploadSize :: "incoming_file list \<Rightarrow> int" where
  "totalUploadSize fs = foldl (\<lambda>sum file. sum + up_size file) 0 fs"

definition quota_check_multiple :: "users_row \<Rightarrow> incoming_file list \<Rightarrow> response_error + unit" where
  "quota_check_multiple u fs =
     (if u_storage_used u + totalUploadSize fs > u_storage_quota u then
        (let availableSpace = u_storage_quota u - u_storage_used u
         in Inl (Insufficient_storage (formatBytes (totalUploadSize fs))
                   (formatBytes availableSpace) (formatBytes (u_storage_quota u))))
      else Inr ())"

definition quota_check_single :: "users_row \<Rightarrow> incoming_file \<Rightarrow> response_error + unit" where
  "quota_check_single u file =
     (if u_storage_used u + up_size file > u_storage_quota u then
        (let availableSpace = u_storage_quota u - u_storage_used u
         in Inl (Insufficient_storage (formatBytes (up_size file))
                   (formatBytes availableSpace) (formatBytes (u_storage_quota u))))
      else Inr ())"

text \<open>\<open>shouldGenerateThumbnail\<close> of services/thumbnailService.js.\<close>

definition shouldGenerateThumbnail :: "string \<Rightarrow> bool" where
  "shouldGenerateThumbnail mimeType =
     list_ex (\<lambda>type. prefix type mimeType \<or> mimeType = type)
       [''image/'', ''video/'', ''audio/'', ''application/pdf'', ''application/msword'',
        ''application/vnd.openxmlformats-officedocument.wordprocessingml.document'',
        ''application/vnd.ms-excel'',
        ''application/vnd.openxmlformats-officedocument.spreadsheetml.sheet'',
        ''application/vnd.ms-powerpoint'',
        ''application/vnd.openxmlformats-officedocument.presentationml.presentation'',
        ''application/zip'', ''application/x-rar-compressed'', ''application/x-7z-compressed'',
        ''text/plain'', ''text/html'', ''text/css'', ''application/javascript'',
        ''application/json'', ''application/xml'']"

text \<open>
  \<open>processAndUploadThumbnail\<close>: the thumbnail is generated and uploaded to the object
  store as a second object under its own name; an error of either step is thrown. The
  result is \<open>thumbnailName\<close> and \<open>thumbnailFileId\<close>.
\<close>

definition processAndUploadThumbnail :: "b2 \<Rightarrow> incoming_file \<Rightarrow> ((string \<times> nat) \<times> b2) option" where
  "processAndUploadThumbnail b file =
     (if \<not> up_thumbnail_generated file then None
      else
        (case uploadFile b (up_thumbnailName file) of
           None \<Rightarrow> None
         | Some (thumbnailFileId, b') \<Rightarrow> Some ((up_thumbnailName file, thumbnailFileId), b')))"

text \<open>
  The thumbnail step of both upload handlers:
  \<^verbatim>\<open>let thumbnailData = null;
  if (thumbnailService.shouldGenerateThumbnail(file.mimetype)) {
    try { thumbnailData = await thumbnailService.processAndUploadThumbnail(...); }
    catch (thumbnailError) { console.error(...); } }\<close>
\<close>

definition thumbnail_step :: "b2 \<Rightarrow> incoming_file \<Rightarrow> (string \<times> nat) option \<times> b2" where
  "thumbnail_step b file =
     (if shouldGenerateThumbnail (up_mimetype file) then
        (case processAndUploadThumbnail b file of
           None \<Rightarrow> (None, b)
         | Some (thumbnailData, b') \<Rightarrow> (Some thumbnailData, b'))
      else (None, b))"

text \<open>\<^verbatim>\<open>INSERT INTO files (...) VALUES (...) RETURNING *\<close>; the id comes from the sequence.\<close>

definition insert_file :: "db \<Rightarrow> nat \<Rightarrow> nat option \<Rightarrow> incoming_file \<Rightarrow> nat
    \<Rightarrow> (string \<times> nat) option \<Rightarrow> files_row \<times> db" where
  "insert_file d uid folder_id file fileId thumbnailData =
     (let row = \<lparr>f_id = files_id_seq d, f_user_id = uid, f_folder_id = folder_id,
                  f_name = up_uniqueFileName file, f_original_name = up_originalname file,
                  f_mime_type = up_mimetype file, f_size = up_size file,
                  f_backblaze_file_id = fileId, f_public_share_token = None,
                  f_is_public = False, f_download_count = 0,
                  f_thumbnail_path = map_option fst thumbnailData,
                  f_thumbnail_backblaze_file_id = map_option snd thumbnailData,
                  f_has_thumbnail = (thumbnailData \<noteq> None)\<rparr>
      in (row, d\<lparr>files := files d @ [row], files_id_seq := Suc (files_id_seq d)\<rparr>))"

text \<open>\<^verbatim>\<open>UPDATE users SET storage_used = storage_used + $1 WHERE id = $2\<close>\<close>

definition increase_storage_used :: "db \<Rightarrow> int \<Rightarrow> nat \<Rightarrow> db" where
  "increase_storage_used d n uid =
     d\<lparr>users := map (\<lambda>u. if u_id u = uid then u\<lparr>u_storage_used := u_storage_used u + n\<rparr> else u)
                    (users d)\<rparr>"

text \<open>\<^verbatim>\<open>UPDATE users SET storage_used = storage_used - $1 WHERE id = $2\<close>\<close>

definition decrease_storage_used :: "db \<Rightarrow> int \<Rightarrow> nat \<Rightarrow> db" where
  "decrease_storage_used d n uid =
     d\<lparr>users := map (\<lambda>u. if u_id u = uid then u\<lparr>u_storage_used := u_storage_used u - n\<rparr> else u)
                    (users d)\<rparr>"

text \<open>
  POST /upload. A failing \<open>uploadFile\<close> of the blob throws to the handler's catch
  block, the 500 response; the thumbnail step follows the blob's upload and never fails
  the request.
\<close>

definition upload :: "db \<Rightarrow> b2 \<Rightarrow> nat \<Rightarrow> nat option \<Rightarrow> incoming_file option
    \<Rightarrow> response_error + (files_row \<times> db \<times> b2)" where
  "upload d b uid folder_id req_file =
     (case req_file of
        None \<Rightarrow> Inl (Plain (Status 400 ''No file uploaded''))
      | Some file \<Rightarrow>
          (case upload_folder_check d uid folder_id of
             Inl e \<Rightarrow> Inl (Plain e)
           | Inr _ \<Rightarrow>
               (case user_storage_rows d uid of
                  [] \<Rightarrow> Inl (Plain (Status 404 ''User not found''))
                | u # _ \<Rightarrow>
                    (case quota_check_single u file of
                       Inl e \<Rightarrow> Inl e
                     | Inr _ \<Rightarrow>
                         (case uploadFile b (up_uniqueFileName file) of
                            None \<Rightarrow> Inl (Plain (Status 500 ''File upload failed''))
                          | Some (fileId, b1) \<Rightarrow>
                              (let (thumbnailData, b') = thumbnail_step b1 file;
                                   (row, d') = insert_file d uid folder_id file fileId thumbnailData
                               in Inr (row, increase_storage_used d' (up_size file) uid, b')))))))"

text \<open>
  The loop of POST /upload/multiple over the request's files: a file whose upload throws
  is pushed to \<open>results.failed\<close> and the loop goes on.
\<close>

record upload_results =
  successful :: "files_row list"
  failed :: "string list"

fun upload_each :: "nat \<Rightarrow> nat option \<Rightarrow> incoming_file list
    \<Rightarrow> upload_results \<times> db \<times> b2 \<Rightarrow> upload_results \<times> db \<times> b2" where
  "upload_each uid folder_id [] acc = acc"
| "upload_each uid folder_id (file # rest) (results, d, b) =
     (case uploadFile b (up_uniqueFileName file) of
        None \<Rightarrow>
          upload_each uid folder_id rest
            (results\<lparr>failed := failed results @ [up_originalname file]\<rparr>, d, b)
      | Some (fileId, b1) \<Rightarrow>
          (let (thumbnailData, b') = thumbnail_step b1 file;
               (row, d') = insert_file d uid folder_id file fileId thumbnailData
           in upload_each uid folder_id rest
                (results\<lparr>successful := successful results @ [row]\<rparr>,
                 increase_storage_used d' (up_size file) uid, b')))"

text \<open>POST /upload/multiple.\<close>

definition upload_multiple :: "db \<Rightarrow> b2 \<Rightarrow> nat \<Rightarrow> nat option \<Rightarrow> incoming_file list
    \<Rightarrow> response_error + (upload_results \<times> db \<times> b2)" where
  "upload_multiple d b uid folder_id req_files =
     (if req_files = [] then Inl (Plain (Status 400 ''No files uploaded''))
      else
        (case upload_folder_check d uid folder_id of
           Inl e \<Rightarrow> Inl (Plain e)
         | Inr _ \<Rightarrow>
             (case user_storage_rows d uid of
                [] \<Rightarrow> Inl (Plain (Status 404 ''User not found''))
              | u # _ \<Rightarrow>
                  (case quota_check_multiple u req_files of
                     Inl e \<Rightarrow> Inl e
                   | Inr _ \<Rightarrow>
                       Inr (upload_each uid folder_id req_files
                              (\<lparr>successful = [], failed = []\<rparr>, d, b))))))"

text \<open>
  \<^verbatim>\<open>try { await backblazeService.deleteFile(file.backblaze_file_id, file.name); }
  catch (b2Error) { console.error(...); }\<close>: the error of the object store is logged and
  the handler goes on.
\<close>

definition deleteFile_logged :: "b2 \<Rightarrow> files_row \<Rightarrow> b2" where
  "deleteFile_logged b file =
     (case deleteFile b (f_backblaze_file_id file) (f_name file) of
        None \<Rightarrow> b
      | Some b' \<Rightarrow> b')"

text \<open>\<^verbatim>\<open>DELETE FROM files WHERE id = $1\<close>\<close>

definition delete_files_row :: "db \<Rightarrow> nat \<Rightarrow> db" where
  "delete_files_row d fileId = d\<lparr>files := filter (\<lambda>f. f_id f \<noteq> fileId) (files d)\<rparr>"

text \<open>\<open>access_level === 'owner' || access_level === 'edit'\<close>, the test of delete and share.\<close>

definition owner_or_edit :: "access_level option \<Rightarrow> bool" where
  "owner_or_edit access = (access = Some Owner \<or> access = Some (Shared Edit))"

text \<open>DELETE /:fileId of routes/files.js.\<close>

definition delete_file :: "db \<Rightarrow> b2 \<Rightarrow> nat \<Rightarrow> nat \<Rightarrow> error + (db \<times> b2)" where
  "delete_file d b uid fileId =
     (case file_access_rows d uid fileId of
        [] \<Rightarrow> Inl (Status 404 ''File not found or access denied'')
      | (file, access) # _ \<Rightarrow>
          if \<not> owner_or_edit access
          then Inl (Status 403 ''Insufficient permissions to delete this file'')
          else
            (let b' = deleteFile_logged b file;
                 d' = delete_files_row d fileId
             in Inr (decrease_storage_used d' (f_size file) (f_user_id file), b')))"

text \<open>
  The file query of the bulk endpoints: the same join with \<open>f.id IN (...)\<close> in place of
  \<open>f.id = $2\<close>.
\<close>

definition files_access_rows_in :: "db \<Rightarrow> nat \<Rightarrow> nat list \<Rightarrow> (files_row \<times> access_level option) list" where
  "files_access_rows_in d uid fileIds =
     map (\<lambda>(f, p). (f, access_level_of (f_user_id f) uid p))
       (filter (\<lambda>(f, p). f_id f \<in> set fileIds \<and> owner_or_shared (f_user_id f) uid p)
         (left_join (files d) (permissions d)
            (\<lambda>f p. f_folder_id f = Some (p_folder_id p) \<and> p_shared_with_user_id p = uid)))"

record delete_results =
  deleted :: "nat list"
  notFound :: "nat list"
  unauthorized :: "nat list"
  delete_failed :: "nat list"
  nonEmpty :: "nat list"

text \<open>
  The local modules of the repository, by their path from the source root, as the
  requires of server.js and of the routes name them. \<open>require\<close> of a relative path
  that is none of them throws (MODULE_NOT_FOUND).
\<close>

definition repository_modules :: "string list" where
  "repository_modules =
     [''config/backblaze'', ''config/database'', ''config/redis'', ''middleware/auth'',
      ''routes/auth'', ''routes/files'', ''routes/folders'', ''routes/share'', ''routes/storage'',
      ''services/emailService'', ''services/thumbnailService'']"

definition require_resolves :: "string \<Rightarrow> bool" where
  "require_resolves path = (path \<in> set repository_modules)"

text \<open>
  The file loop of DELETE /bulk/mixed of routes/folders.js. Its first statement is
  \<^verbatim>\<open>const backblazeService = require('../services/backblaze');\<close> inside the per-file try
  block; \<open>module_found\<close> says whether that require returned. When it throws, the
  catch block pushes the file to \<open>results.files.failed\<close> and nothing of the file is
  deleted. No statement of the loop writes table users.
\<close>

fun mixed_delete_each_file :: "bool \<Rightarrow> files_row list
    \<Rightarrow> nat list \<times> nat list \<times> db \<times> b2 \<Rightarrow> nat list \<times> nat list \<times> db \<times> b2" where
  "mixed_delete_each_file module_found [] acc = acc"
| "mixed_delete_each_file module_found (file # rest) (del, fl, d, b) =
     (if \<not> module_found
      then mixed_delete_each_file module_found rest (del, fl @ [f_id file], d, b)
      else
        (let b' = deleteFile_logged b file;
             d' = delete_files_row d (f_id file)
         in mixed_delete_each_file module_found rest (del @ [f_id file], fl, d', b')))"

text \<open>The folder query of the bulk endpoints, with \<open>f.id IN (...)\<close>.\<close>

definition folders_access_rows_in :: "db \<Rightarrow> nat \<Rightarrow> nat list \<Rightarrow> (folders_row \<times> access_level option) list" where
  "folders_access_rows_in d uid folderIds =
     map (\<lambda>(f, p). (f, access_level_of (fo_user_id f) uid p))
       (filter (\<lambda>(f, p). fo_id f \<in> set folderIds \<and> owner_or_shared (fo_user_id f) uid p)
         (left_join (folders d) (permissions d)
            (\<lambda>f p. fo_id f = p_folder_id p \<and> p_shared_with_user_id p = uid)))"

text \<open>
  The folder loop of DELETE /bulk/mixed: a folder with a subfolder or a file is pushed to
  \<open>nonEmpty\<close>; otherwise its permissions and the folder are deleted.
\<close>

fun mixed_delete_each_folder :: "folders_row list
    \<Rightarrow> nat list \<times> nat list \<times> db \<Rightarrow> nat list \<times> nat list \<times> db" where
  "mixed_delete_each_folder [] acc = acc"
| "mixed_delete_each_folder (folder # rest) (del, ne, d) =
     (let subfolderCount = length (filter (\<lambda>f. fo_parent_folder_id f = Some (fo_id folder)) (folders d));
          fileCount = length (filter (\<lambda>f. f_folder_id f = Some (fo_id folder)) (files d))
      in if subfolderCount > 0 \<or> fileCount > 0
         then mixed_delete_each_folder rest (del, ne @ [fo_id folder], d)
         else
           mixed_delete_each_folder rest
             (del @ [fo_id folder], ne,
              d\<lparr>permissions := filter (\<lambda>p. p_folder_id p \<noteq> fo_id folder) (permissions d),
                folders := filter (\<lambda>f. fo_id f \<noteq> fo_id folder) (folders d)\<rparr>))"

text \<open>
  DELETE /bulk/mixed of routes/folders.js. The result is the status code (403 when some
  item was unauthorized, after the deletions of the others have been done), the results
  for files and for folders, and the new state. From routes/folders.js the path
  \<open>../services/backblaze\<close> is the module \<open>services/backblaze\<close>.
\<close>

definition bulk_delete_mixed :: "db \<Rightarrow> b2 \<Rightarrow> nat \<Rightarrow> nat list \<Rightarrow> nat list
    \<Rightarrow> error + (nat \<times> delete_results \<times> delete_results \<times> db \<times> b2)" where
  "bulk_delete_mixed d b uid fileIds folderIds =
     (if fileIds = [] \<and> folderIds = []
      then Inl (Status 400 ''At least one of fileIds or folderIds must be a non-empty array'')
      else
        (let foundFiles = (if fileIds = [] then [] else files_access_rows_in d uid fileIds);
             unauthorizedFiles = filter (\<lambda>(f, a). \<not> owner_or_edit a) foundFiles;
             deletableFiles = filter (\<lambda>(f, a). owner_or_edit a) foundFiles
         in case mixed_delete_each_file (require_resolves ''services/backblaze'')
                   (map fst deletableFiles) ([], [], d, b) of
              (fdel, ffail, d1, b1) \<Rightarrow>
                (let foundFolders = (if folderIds = [] then [] else folders_access_rows_in d1 uid folderIds);
                     unauthorizedFolders = filter (\<lambda>(f, a). a \<noteq> Some Owner) foundFolders;
                     deletableFolders = filter (\<lambda>(f, a). a = Some Owner) foundFolders
                 in case mixed_delete_each_folder (map fst deletableFolders) ([], [], d1) of
                      (odel, one, d2) \<Rightarrow>
                        (let file_results =
                               \<lparr>deleted = fdel,
                                notFound = filter (\<lambda>i. i \<notin> set (map (f_id \<circ> fst) foundFiles)) fileIds,
                                unauthorized = map (f_id \<circ> fst) unauthorizedFiles,
                                delete_failed = ffail, nonEmpty = []\<rparr>;
                             folder_results =
                               \<lparr>deleted = odel,
                                notFound = filter (\<lambda>i. i \<notin> set (map (fo_id \<circ> fst) foundFolders)) folderIds,
                                unauthorized = map (fo_id \<circ> fst) unauthorizedFolders,
                                delete_failed = [], nonEmpty = one\<rparr>;
                             hasUnauthorized = (length (unauthorized file_results) > 0
                                                \<or> length (unauthorized folder_results) > 0)
                         in Inr (if hasUnauthorized then 403 else 200,
                                 file_results, folder_results, d2, b1)))))"

text \<open>
  GET /stats of routes/storage.js, up to the reconciliation of storage_used:
  \<^verbatim>\<open>SELECT COALESCE(SUM(size), 0) as actual_used FROM files WHERE user_id = $1\<close> and the
  UPDATE when the sum differs from the stored value. The breakdown by type, the
  percentage and the coupon list of the response are not modelled.
\<close>

record storage_stats =
  st_quota :: int
  st_used :: int
  st_available :: int

definition actual_used :: "db \<Rightarrow> nat \<Rightarrow> int" where
  "actual_used d uid = sum_list (map f_size (filter (\<lambda>f. f_user_id f = uid) (files d)))"

definition stats :: "db \<Rightarrow> nat \<Rightarrow> error + (storage_stats \<times> db)" where
  "stats d uid =
     (case user_storage_rows d uid of
        [] \<Rightarrow> Inl (Status 404 ''User not found'')
      | u # _ \<Rightarrow>
          (let actualUsed = actual_used d uid;
               d' = (if actualUsed \<noteq> u_storage_used u
                     then d\<lparr>users := map (\<lambda>x. if u_id x = uid then x\<lparr>u_storage_used := actualUsed\<rparr> else x)
                                        (users d)\<rparr>
                     else d)
           in Inr (\<lparr>st_quota = u_storage_quota u, st_used = actualUsed,
                    st_available = u_storage_quota u - actualUsed\<rparr>, d')))"

section \<open>Coupon redemption (routes/storage.js)\<close>

text \<open>\<open>code.toUpperCase()\<close> on the ASCII letters; other characters are kept.\<close>

definition toUpperCase :: "string \<Rightarrow> string" where
  "toUpperCase s =
     map (\<lambda>c. case map_of (zip ''abcdefghijklmnopqrstuvwxyz'' ''ABCDEFGHIJKLMNOPQRSTUVWXYZ'') c of
                 None \<Rightarrow> c
               | Some u \<Rightarrow> u) s"

text \<open>
  \<^verbatim>\<open>SELECT * FROM coupons WHERE code = $1 AND is_active = TRUE
  AND (expires_at IS NULL OR expires_at > NOW()) AND current_uses < max_uses\<close>;
  \<open>now\<close> is the time of the query.
\<close>

definition valid_coupons :: "db \<Rightarrow> int \<Rightarrow> string \<Rightarrow> coupons_row list" where
  "valid_coupons d now code =
     filter (\<lambda>c. c_code c = code \<and> c_is_active c
                \<and> (case c_expires_at c of None \<Rightarrow> True | Some t \<Rightarrow> t > now)
                \<and> c_current_uses c < c_max_uses c) (coupons d)"

text \<open>\<^verbatim>\<open>SELECT id FROM coupon_redemptions WHERE user_id = $1 AND coupon_id = $2\<close>\<close>

definition redemptionCheck :: "db \<Rightarrow> nat \<Rightarrow> nat \<Rightarrow> coupon_redemptions_row list" where
  "redemptionCheck d uid couponId =
     filter (\<lambda>r. cr_user_id r = uid \<and> cr_coupon_id r = couponId) (coupon_redemptions d)"

record redeem_response =
  storageGranted :: int
  couponCode :: string

text \<open>
  POST /redeem-coupon. An error response is sent after ROLLBACK, so it leaves the
  database as it was; the three writes are followed by COMMIT.
\<close>

definition redeem_coupon :: "db \<Rightarrow> int \<Rightarrow> nat \<Rightarrow> string \<Rightarrow> error + (redeem_response \<times> db)" where
  "redeem_coupon d now uid code =
     (if code = [] then Inl (Status 400 ''Coupon code is required'')
      else
        (case valid_coupons d now (toUpperCase code) of
           [] \<Rightarrow> Inl (Status 400 ''Invalid or expired coupon code'')
         | coupon # _ \<Rightarrow>
             if redemptionCheck d uid (c_id coupon) \<noteq> []
             then Inl (Status 400 ''You have already redeemed this coupon'')
             else
               (let d1 = d\<lparr>users := map (\<lambda>u. if u_id u = uid
                                              then u\<lparr>u_storage_quota := u_storage_quota u + c_storage_bonus coupon\<rparr>
                                              else u) (users d)\<rparr>;
                    d2 = d1\<lparr>coupon_redemptions := coupon_redemptions d1 @
                             [\<lparr>cr_user_id = uid, cr_coupon_id = c_id coupon,
                               cr_storage_granted = c_storage_bonus coupon\<rparr>]\<rparr>;
                    d3 = d2\<lparr>coupons := map (\<lambda>c. if c_id c = c_id coupon
                                                then c\<lparr>c_current_uses := c_current_uses c + 1\<rparr>
                                                else c) (coupons d2)\<rparr>
                in Inr (\<lparr>storageGranted = c_storage_bonus coupon, couponCode = c_code coupon\<rparr>, d3))))"

section \<open>The cache (config/redis.js)\<close>

text \<open>
  The descriptor cached under the key \<open>public:\<close> followed by the share token (the backblazeUrl field is left
  out: no handler reads it back).
\<close>

record share_data =
  sd_fileId :: nat
  sd_fileName :: string
  sd_mimeType :: string
  sd_size :: int
  sd_ownerId :: nat

text \<open>
  RedisService: the flag \<open>isConnected\<close>, and the server's entries. \<open>client_fails\<close> says
  that a command sent now throws (the catch block of each method then returns false or
  null). Expiry is not modelled: an entry is present until deleted, which is the state
  of the cache within an entry's time to live. Only the \<open>public:\<close> keys are modelled.
\<close>

record redis =
  isConnected :: bool
  client_fails :: bool
  entries :: "(string \<times> share_data) list"

definition redis_set :: "redis \<Rightarrow> string \<Rightarrow> share_data \<Rightarrow> bool \<times> redis" where
  "redis_set r key v =
     (if \<not> isConnected r then (False, r)
      else if client_fails r then (False, r)
      else (True, r\<lparr>entries := (key, v) # filter (\<lambda>(k, _). k \<noteq> key) (entries r)\<rparr>))"

definition redis_get :: "redis \<Rightarrow> string \<Rightarrow> share_data option" where
  "redis_get r key =
     (if \<not> isConnected r then None
      else if client_fails r then None
      else map_of (entries r) key)"

definition redis_del :: "redis \<Rightarrow> string \<Rightarrow> bool \<times> redis" where
  "redis_del r key =
     (if \<not> isConnected r then (False, r)
      else if client_fails r then (False, r)
      else (True, r\<lparr>entries := filter (\<lambda>(k, _). k \<noteq> key) (entries r)\<rparr>))"

text \<open>The client's event handlers: \<open>'error'\<close> clears the flag, \<open>'connect'\<close> sets it.\<close>

definition redis_on_error :: "redis \<Rightarrow> redis" where
  "redis_on_error r = r\<lparr>isConnected := False\<rparr>"

definition redis_on_connect :: "redis \<Rightarrow> redis" where
  "redis_on_connect r = r\<lparr>isConnected := True\<rparr>"

definition cachePublicShare :: "redis \<Rightarrow> string \<Rightarrow> share_data \<Rightarrow> bool \<times> redis" where
  "cachePublicShare r shareToken fileData = redis_set r (''public:'' @ shareToken) fileData"

definition getPublicShare :: "redis \<Rightarrow> string \<Rightarrow> share_data option" where
  "getPublicShare r shareToken = redis_get r (''public:'' @ shareToken)"

section \<open>Public shares and delivery (routes/files.js)\<close>

definition shareData_of :: "files_row \<Rightarrow> share_data" where
  "shareData_of file =
     \<lparr>sd_fileId = f_id file, sd_fileName = f_original_name file,
      sd_mimeType = f_mime_type file, sd_size = f_size file, sd_ownerId = f_user_id file\<rparr>"

text \<open>
  POST /:fileId/share; \<open>shareToken\<close> is the value of \<open>crypto.randomUUID()\<close>. The time to
  live \<open>expiresIn * 3600\<close> goes to the cache only.
\<close>

definition create_share :: "db \<Rightarrow> redis \<Rightarrow> nat \<Rightarrow> nat \<Rightarrow> string \<Rightarrow> error + (string \<times> db \<times> redis)" where
  "create_share d r uid fileId shareToken =
     (case file_access_rows d uid fileId of
        [] \<Rightarrow> Inl (Status 404 ''File not found or access denied'')
      | (file, access) # _ \<Rightarrow>
          if \<not> owner_or_edit access
          then Inl (Status 403 ''Insufficient permissions to share this file'')
          else
            (let d' = d\<lparr>files := map (\<lambda>f. if f_id f = fileId
                                           then f\<lparr>f_public_share_token := Some shareToken, f_is_public := True\<rparr>
                                           else f) (files d)\<rparr>;
                 (_, r') = cachePublicShare r shareToken (shareData_of file)
             in Inr (shareToken, d', r')))"

text \<open>
  DELETE /:fileId/share. \<open>if (file.public_share_token)\<close> is false for NULL and for the
  empty string; the result of \<open>redisService.del\<close> is not looked at.
\<close>

definition revoke_share :: "db \<Rightarrow> redis \<Rightarrow> nat \<Rightarrow> nat \<Rightarrow> error + (db \<times> redis)" where
  "revoke_share d r uid fileId =
     (case filter (\<lambda>f. f_id f = fileId \<and> f_user_id f = uid) (files d) of
        [] \<Rightarrow> Inl (Status 404 ''File not found or access denied'')
      | file # _ \<Rightarrow>
          (let d' = d\<lparr>files := map (\<lambda>f. if f_id f = fileId
                                         then f\<lparr>f_public_share_token := None, f_is_public := False\<rparr>
                                         else f) (files d)\<rparr>;
               r' = (case f_public_share_token file of
                       None \<Rightarrow> r
                     | Some t \<Rightarrow> if t = [] then r else snd (redis_del r (''public:'' @ t)))
           in Inr (d', r')))"

datatype disposition = inline | attachment

text \<open>
  What a delivery handler sends before the bytes are proxied: the Content-Type, the
  Content-Disposition (kind and file name; \<open>None\<close> when the header is not set) and the
  name of the object whose bytes follow. The proxying itself is not modelled.
\<close>

record delivery =
  content_type :: string
  content_disposition :: "(disposition \<times> string) option"
  object_name :: string

text \<open>\<^verbatim>\<open>UPDATE files SET download_count = download_count + 1 WHERE id = $1\<close>\<close>

definition count_download :: "db \<Rightarrow> nat \<Rightarrow> db" where
  "count_download d fileId =
     d\<lparr>files := map (\<lambda>f. if f_id f = fileId then f\<lparr>f_download_count := f_download_count f + 1\<rparr> else f)
                    (files d)\<rparr>"

text \<open>The three MIME classes shown inline.\<close>

definition inline_type :: "string \<Rightarrow> bool" where
  "inline_type mime =
     (prefix ''image/'' mime \<or> prefix ''video/'' mime \<or> mime = ''application/pdf'')"

text \<open>
  GET /public/:shareToken: the cache first, then the database filtered by
  \<open>is_public = TRUE\<close>, with the descriptor cached again for an hour.
\<close>

definition public_access :: "db \<Rightarrow> redis \<Rightarrow> string \<Rightarrow> error + (delivery \<times> db \<times> redis)" where
  "public_access d r shareToken =
     (let looked_up =
            (case getPublicShare r shareToken of
               Some shareData \<Rightarrow> Inr (shareData, r)
             | None \<Rightarrow>
                 (case filter (\<lambda>f. f_public_share_token f = Some shareToken \<and> f_is_public f) (files d) of
                    [] \<Rightarrow> Inl (Status 404 ''File not found or share link expired'')
                  | file # _ \<Rightarrow>
                      Inr (shareData_of file, snd (cachePublicShare r shareToken (shareData_of file)))))
      in case looked_up of
           Inl e \<Rightarrow> Inl e
         | Inr (shareData, r') \<Rightarrow>
             (let d' = count_download d (sd_fileId shareData)
              in case filter (\<lambda>f. f_id f = sd_fileId shareData) (files d') of
                   [] \<Rightarrow> Inl (Status 404 ''File not found'')
                 | row # _ \<Rightarrow>
                     Inr (\<lparr>content_type = sd_mimeType shareData,
                           content_disposition =
                             Some (if inline_type (sd_mimeType shareData) then inline else attachment,
                                   sd_fileName shareData),
                           object_name = f_name row\<rparr>, d', r')))"

text \<open>
  The caller of the token-checked delivery routes: no token, a token that
  \<open>jwt.verify\<close> rejects, or the user id of a verified token.
\<close>

datatype credentials = NoToken | InvalidToken | Verified nat

text \<open>GET /:fileId/download: any access level admits; the disposition is always attachment.\<close>

definition download :: "db \<Rightarrow> credentials \<Rightarrow> nat \<Rightarrow> error + (delivery \<times> db)" where
  "download d cred fileId =
     (case cred of
        NoToken \<Rightarrow> Inl (Status 401 ''Access token required'')
      | InvalidToken \<Rightarrow> Inl (Status 403 ''Invalid or expired token'')
      | Verified userId \<Rightarrow>
          (case file_access_rows d userId fileId of
             [] \<Rightarrow> Inl (Status 404 ''File not found or access denied'')
           | (file, _) # _ \<Rightarrow>
               Inr (\<lparr>content_type = f_mime_type file,
                     content_disposition = Some (attachment, f_original_name file),
                     object_name = f_name file\<rparr>, count_download d fileId)))"

text \<open>
  GET /:fileId/view: a type outside the supported ones is refused; the write of the
  file's metadata to the cache (a key no handler reads) is left out.
\<close>

definition isSupported :: "string \<Rightarrow> bool" where
  "isSupported mime =
     list_ex (\<lambda>type. prefix type mime \<or> mime = type) [''image/'', ''video/'', ''application/pdf'']"

definition view :: "db \<Rightarrow> credentials \<Rightarrow> nat \<Rightarrow> error + delivery" where
  "view d cred fileId =
     (case cred of
        NoToken \<Rightarrow> Inl (Status 401 ''Access token required'')
      | InvalidToken \<Rightarrow> Inl (Status 403 ''Invalid or expired token'')
      | Verified userId \<Rightarrow>
          (case file_access_rows d userId fileId of
             [] \<Rightarrow> Inl (Status 404 ''File not found or access denied'')
           | (file, _) # _ \<Rightarrow>
               if \<not> isSupported (f_mime_type file)
               then Inl (Status 400 ''File type not supported for inline viewing'')
               else Inr \<lparr>content_type = f_mime_type file,
                        content_disposition =
                          (if inline_type (f_mime_type file)
                           then Some (inline, f_original_name file) else None),
                        object_name = f_name file\<rparr>))"

section \<open>A concrete state, for running the handlers\<close>

text \<open>
  User 1 owns folder 1 and its child folder 2, and has shared folder 1 with user 2 at
  create. File 10 (user 1) and file 11 (uploaded by user 2) are in folder 1, file 12
  (user 1) is in no folder, file 13 (user 1) is in the child folder 2. User 3 holds no
  grant.
\<close>

definition example_file :: "nat \<Rightarrow> nat \<Rightarrow> nat option \<Rightarrow> string \<Rightarrow> int \<Rightarrow> files_row" where
  "example_file i uid folder mime n =
     \<lparr>f_id = i, f_user_id = uid, f_folder_id = folder, f_name = ''blob'' @ string_of_nat i,
      f_original_name = ''file'' @ string_of_nat i, f_mime_type = mime, f_size = n,
      f_backblaze_file_id = i, f_public_share_token = None, f_is_public = False,
      f_download_count = 0, f_thumbnail_path = None, f_thumbnail_backblaze_file_id = None,
      f_has_thumbnail = False\<rparr>"

definition example_folder :: folders_row where
  "example_folder = \<lparr>fo_id = 1, fo_user_id = 1, fo_parent_folder_id = None\<rparr>"

definition example_child :: folders_row where
  "example_child = \<lparr>fo_id = 2, fo_user_id = 1, fo_parent_folder_id = Some 1\<rparr>"

definition example_db :: db where
  "example_db =
     \<lparr>users = [\<lparr>u_id = 1, u_storage_quota = 1000000, u_storage_used = 900000\<rparr>,
               \<lparr>u_id = 2, u_storage_quota = 5368709120, u_storage_used = 50000\<rparr>,
               \<lparr>u_id = 3, u_storage_quota = 5368709120, u_storage_used = 0\<rparr>],
      folders = [example_folder, example_child],
      files = [example_file 10 1 (Some 1) ''image/png'' 400000,
               example_file 11 2 (Some 1) ''text/plain'' 50000,
               example_file 12 1 None ''application/pdf'' 300000,
               example_file 13 1 (Some 2) ''video/mp4'' 200000],
      permissions = [\<lparr>p_folder_id = 1, p_shared_with_user_id = 2, p_permission_type = Create,
                      p_granted_by_user_id = 1\<rparr>],
      coupons = [\<lparr>c_id = 1, c_code = ''WELCOME200'', c_storage_bonus = 214748364800,
                  c_max_uses = 1000, c_current_uses = 0, c_expires_at = Some 1000, c_is_active = True\<rparr>,
                 \<lparr>c_id = 2, c_code = ''ONCE'', c_storage_bonus = 1024,
                  c_max_uses = 1, c_current_uses = 0, c_expires_at = None, c_is_active = True\<rparr>],
      coupon_redemptions = [],
      files_id_seq = 14\<rparr>"

definition example_b2 :: b2 where
  "example_b2 =
     \<lparr>b2_objects = [(10, ''blob10''), (11, ''blob11''), (12, ''blob12''), (13, ''blob13'')],
      b2_next_file_id = 14, b2_failing = []\<rparr>"

text \<open>
  The scenario of the quota check: user 1 has quota 1,000,000 and used 900,000 bytes and
  sends a batch of 80,000 and 70,000 bytes.
\<close>

definition example_user :: users_row where
  "example_user = \<lparr>u_id = 1, u_storage_quota = 1000000, u_storage_used = 900000\<rparr>"

definition example_batch :: "incoming_file list" where
  "example_batch =
     [\<lparr>up_originalname = ''a.txt'', up_mimetype = ''text/plain'', up_size = 80000,
       up_uniqueFileName = ''uuid-a.txt'', up_thumbnailName = ''thumb_uuid-a.png'',
       up_thumbnail_generated = True\<rparr>,
      \<lparr>up_originalname = ''b.txt'', up_mimetype = ''text/plain'', up_size = 70000,
       up_uniqueFileName = ''uuid-b.txt'', up_thumbnailName = ''thumb_uuid-b.png'',
       up_thumbnail_generated = True\<rparr>]"

text \<open>The object store while requests on two names fail.\<close>

definition failing_b2 :: b2 where
  "failing_b2 = example_b2\<lparr>b2_failing := [''blob10'', ''uuid-b.txt'']\<rparr>"

text \<open>A state with drift: the row of file 10 is gone, user 1's counter still has it.\<close>

definition drifted_db :: db where
  "drifted_db = delete_files_row example_db 10"

text \<open>The state after user 3 has redeemed the coupon WELCOME200 at time 0.\<close>

definition redeemed_db :: db where
  "redeemed_db =
     (case redeem_coupon example_db 0 3 ''welcome200'' of
        Inr (_, d1) \<Rightarrow> d1
      | Inl _ \<Rightarrow> example_db)"

text \<open>
  The cache, connected and empty; then the state after user 1 has shared file 10 under
  the token token-10, which leaves the descriptor in the cache.
\<close>

definition example_redis :: redis where
  "example_redis = \<lparr>isConnected = True, client_fails = False, entries = []\<rparr>"

definition shared_db :: db where
  "shared_db =
     (case create_share example_db example_redis 1 10 ''token-10'' of
        Inr (_, d', _) \<Rightarrow> d' | Inl _ \<Rightarrow> example_db)"

definition shared_redis :: redis where
  "shared_redis =
     (case create_share example_db example_redis 1 10 ''token-10'' of
        Inr (_, _, r') \<Rightarrow> r' | Inl _ \<Rightarrow> example_redis)"

definition shared_file :: files_row where
  "shared_file =
     (example_file 10 1 (Some 1) ''image/png'' 400000)
       \<lparr>f_public_share_token := Some ''token-10'', f_is_public := True\<rparr>"

text \<open>
  The share is revoked after the cache client's error event has cleared \<open>isConnected\<close>.
\<close>

definition stale_db :: db where
  "stale_db =
     (case revoke_share shared_db (redis_on_error shared_redis) 1 10 of
        Inr (d', _) \<Rightarrow> d' | Inl _ \<Rightarrow> shared_db)"

definition stale_redis :: redis where
  "stale_redis =
     (case revoke_share shared_db (redis_on_error shared_redis) 1 10 of
        Inr (_, r') \<Rightarrow> r' | Inl _ \<Rightarrow> shared_redis)"

text \<open>
  The file is shared a second time under the token token-10b, then the share is revoked,
  with the cache connected throughout.
\<close>

definition reshared_revoked :: "db \<times> redis" where
  "reshared_revoked =
     (case create_share shared_db shared_redis 1 10 ''token-10b'' of
        Inl _ \<Rightarrow> (shared_db, shared_redis)
      | Inr (_, d2, r2) \<Rightarrow>
          (case revoke_share d2 r2 1 10 of
             Inl _ \<Rightarrow> (d2, r2)
           | Inr (d3, r3) \<Rightarrow> (d3, r3)))"

text \<open>
  The state of \<open>example_db\<close> with user 2's grant on folder 1 raised to edit.
\<close>

definition edit_db :: db where
  "edit_db =
     example_db\<lparr>permissions := [\<lparr>p_folder_id = 1, p_shared_with_user_id = 2,
                                   p_permission_type = Edit, p_granted_by_user_id = 1\<rparr>]\<rparr>"

text \<open>
  The shared state with one more file of user 1, of a type that starts with
  application/pdf and is not equal to it.
\<close>

definition pdf_variant_db :: db where
  "pdf_variant_db =
     shared_db\<lparr>files := files shared_db @ [example_file 14 1 None ''application/pdfx'' 1000]\<rparr>"

section \<open>Auxiliary facts about keyed tables\<close>

lemmas example_defs = example_db_def example_folder_def example_child_def example_file_def

lemma filter_key_absent:
  "v \<notin> k ` set xs \<Longrightarrow> filter (\<lambda>y. k y = v) xs = []"
  by (induction xs) auto

lemma filter_key_singleton:
  "distinct (map k xs) \<Longrightarrow> x \<in> set xs \<Longrightarrow> filter (\<lambda>y. k y = k x) xs = [x]"
proof (induction xs)
  case Nil
  then show ?case by simp
next
  case (Cons a xs)
  show ?case
  proof (cases "a = x")
    case True
    with Cons.prems have "k x \<notin> k ` set xs" by auto
    then have "filter (\<lambda>y. k y = k x) xs = []" by (rule filter_key_absent)
    with True show ?thesis by simp
  next
    case False
    with Cons.prems have mem: "x \<in> set xs" and d: "distinct (map k xs)" by auto
    from Cons.prems mem have "k a \<noteq> k x" by force
    with Cons.IH [OF d mem] show ?thesis by simp
  qed
qed

lemma filter_key_cases:
  "distinct (map k xs) \<Longrightarrow>
     filter (\<lambda>y. k y = v) xs = [] \<or> (\<exists>x \<in> set xs. k x = v \<and> filter (\<lambda>y. k y = v) xs = [x])"
proof -
  assume d: "distinct (map k xs)"
  show ?thesis
  proof (cases "v \<in> k ` set xs")
    case False
    then show ?thesis by (simp add: filter_key_absent)
  next
    case True
    then obtain x where x: "x \<in> set xs" "k x = v" by auto
    from filter_key_singleton [OF d x(1)] x show ?thesis by auto
  qed
qed

lemma left_join_single:
  "left_join [x] ys on =
     (case filter (on x) ys of [] \<Rightarrow> [(x, None)] | ms \<Rightarrow> map (\<lambda>y. (x, Some y)) ms)"
  by (simp add: left_join_def)

lemma filter_left_join_fst:
  "filter (\<lambda>(x, p). P x \<and> Q x p) (left_join xs ys on)
     = filter (\<lambda>(x, p). Q x p) (left_join (filter P xs) ys on)"
proof (induction xs)
  case Nil
  then show ?case by (simp add: left_join_def)
next
  case (Cons a xs)
  have step: "left_join (a # xs) ys on = left_join [a] ys on @ left_join xs ys on" for xs
    by (simp add: left_join_def)
  have one: "filter (\<lambda>(x, p). P x \<and> Q x p) (left_join [a] ys on)
               = (if P a then filter (\<lambda>(x, p). Q x p) (left_join [a] ys on) else [])"
    by (auto simp: left_join_single split: list.splits intro: filter_cong)
  show ?case
    using Cons.IH by (simp add: step [of xs] step [of "filter P xs"] one)
qed

subsection \<open>Counters, joins and evaluation\<close>

lemma used_after_update:
  "map u_storage_used (filter (\<lambda>u. u_id u = uid')
       (map (\<lambda>u. if u_id u = uid then u\<lparr>u_storage_used := g (u_storage_used u)\<rparr> else u) us))
     = (if uid' = uid then map g (map u_storage_used (filter (\<lambda>u. u_id u = uid) us))
        else map u_storage_used (filter (\<lambda>u. u_id u = uid') us))"
  by (induction us) auto

lemma storage_used_of_increase:
  "storage_used_of (increase_storage_used d n uid) uid' =
     (if uid' = uid then map (\<lambda>x. x + n) (storage_used_of d uid) else storage_used_of d uid')"
  using used_after_update [of uid' uid "\<lambda>x. x + n" "users d"]
  by (simp add: storage_used_of_def user_storage_rows_def increase_storage_used_def)

lemma storage_used_of_decrease:
  "storage_used_of (decrease_storage_used d n uid) uid' =
     (if uid' = uid then map (\<lambda>x. x - n) (storage_used_of d uid) else storage_used_of d uid')"
  using used_after_update [of uid' uid "\<lambda>x. x - n" "users d"]
  by (simp add: storage_used_of_def user_storage_rows_def decrease_storage_used_def)

lemma storage_used_of_files_update [simp]:
  "storage_used_of (d\<lparr>files := fs\<rparr>) uid = storage_used_of d uid"
  "storage_used_of (d\<lparr>files_id_seq := n\<rparr>) uid = storage_used_of d uid"
  "storage_used_of (d\<lparr>folders := os\<rparr>) uid = storage_used_of d uid"
  "storage_used_of (d\<lparr>permissions := ps\<rparr>) uid = storage_used_of d uid"
  by (simp_all add: storage_used_of_def user_storage_rows_def)

lemma left_join_fst: "(x, p) \<in> set (left_join xs ys on) \<Longrightarrow> x \<in> set xs"
  by (induction xs) (auto simp: left_join_def split: list.splits)

lemma file_access_rows_mem:
  "(x, a) \<in> set (file_access_rows d uid fileId) \<Longrightarrow> x \<in> set (files d) \<and> f_id x = fileId"
  by (auto simp: file_access_rows_def dest: left_join_fst)

lemmas share_eval_defs =
  shared_db_def shared_redis_def example_redis_def create_share_def public_access_def
  download_def view_def file_access_rows_def left_join_def access_level_of_def
  owner_or_shared_def owner_or_edit_def cachePublicShare_def getPublicShare_def redis_set_def
  redis_get_def shareData_of_def count_download_def inline_type_def isSupported_def
  digit_char_def Let_def example_defs

section \<open>Permission resolution: theorems\<close>

lemma permission_rows_on:
  "filter (\<lambda>p. fo_id F = p_folder_id p \<and> p_shared_with_user_id p = c) (permissions d)
     = permission_rows d (fo_id F) c"
  unfolding permission_rows_def by (rule filter_cong) auto

lemma permission_rows_cases:
  assumes "permissions_unique d"
  shows "permission_rows d fid c = [] \<or>
         (\<exists>p. p_folder_id p = fid \<and> p_shared_with_user_id p = c \<and> permission_rows d fid c = [p])"
proof -
  have eq: "permission_rows d fid c
        = filter (\<lambda>p. (p_folder_id p, p_shared_with_user_id p) = (fid, c)) (permissions d)"
    unfolding permission_rows_def by (rule filter_cong) auto
  from assms have "distinct (map (\<lambda>p. (p_folder_id p, p_shared_with_user_id p)) (permissions d))"
    by (simp add: permissions_unique_def)
  from filter_key_cases [OF this, of "(fid, c)"] show ?thesis
    unfolding eq by auto
qed

lemma folder_rows_of_id:
  assumes pk: "folders_pkey d" and F: "F \<in> set (folders d)"
  shows "filter (\<lambda>f. fo_id f = fo_id F) (folders d) = [F]"
proof -
  from pk have "distinct (map fo_id (folders d))" by (simp add: folders_pkey_def)
  from filter_key_singleton [OF this F] show ?thesis .
qed

lemma folder_access_rows_of_folder:
  assumes pk: "folders_pkey d" and F: "F \<in> set (folders d)"
  shows "folder_access_rows d c (fo_id F) =
     map (\<lambda>(f, p). (f, access_level_of (fo_user_id f) c p))
       (filter (\<lambda>(f, p). owner_or_shared (fo_user_id f) c p)
         (case permission_rows d (fo_id F) c of
            [] \<Rightarrow> [(F, None)] | ms \<Rightarrow> map (\<lambda>y. (F, Some y)) ms))"
  unfolding folder_access_rows_def
  by (simp only: filter_left_join_fst folder_rows_of_id [OF pk F] left_join_single
        permission_rows_on)

lemma get_folder_resolved:
  assumes pk: "folders_pkey d" and un: "permissions_unique d" and F: "F \<in> set (folders d)"
  shows "get_folder d c (fo_id F) =
           (if fo_user_id F = c then Inr (F, Some Owner)
            else case permission_rows d (fo_id F) c of
                   [] \<Rightarrow> Inl (Status 404 ''Folder not found or access denied'')
                 | p # _ \<Rightarrow> Inr (F, Some (Shared (p_permission_type p))))"
  using permission_rows_cases [OF un, of "fo_id F" c]
  by (auto simp: get_folder_def folder_access_rows_of_folder [OF pk F]
        access_level_of_def owner_or_shared_def)

text \<open>
  C1. For every stored folder F and caller c, GET /:folderId resolves the access level
  \<open>owner\<close> if and only if F's user_id is c; for any other caller it is the
  permission_type of the stored grant row keyed by (F, c), and when there is no such row
  the caller has no access: the query returns no row and the handler answers 404
  (folder not found or access denied). The middleware checkFolderPermission decides by
  the same two facts: the owner passes, any other caller needs the grant row, at the
  required level or above. The primary key of folders and the unique key of permissions
  are the schema's.
\<close>

theorem folder_access_level_resolved:
  assumes pk: "folders_pkey d" and un: "permissions_unique d" and F: "F \<in> set (folders d)"
  shows "get_folder d c (fo_id F) =
           (if fo_user_id F = c then Inr (F, Some Owner)
            else case permission_rows d (fo_id F) c of
                   [] \<Rightarrow> Inl (Status 404 ''Folder not found or access denied'')
                 | p # _ \<Rightarrow> Inr (F, Some (Shared (p_permission_type p))))
         \<and> ((\<exists>r. get_folder d c (fo_id F) = Inr (r, Some Owner)) \<longleftrightarrow> fo_user_id F = c)
         \<and> checkFolderPermission required d c (fo_id F) =
           (if fo_user_id F = c then Inr ()
            else case permission_rows d (fo_id F) c of
                   [] \<Rightarrow> Inl (Status 403 ''Access denied'')
                 | p # _ \<Rightarrow>
                     if permissionLevels (p_permission_type p) < permissionLevels required
                     then Inl (Status 403 ''Insufficient permissions'') else Inr ())"
proof -
  note rows = get_folder_resolved [OF pk un F, of c]
  have own: "(\<exists>r. get_folder d c (fo_id F) = Inr (r, Some Owner)) \<longleftrightarrow> fo_user_id F = c"
    unfolding rows by (auto split: list.splits)
  have mw: "checkFolderPermission required d c (fo_id F) =
           (if fo_user_id F = c then Inr ()
            else case permission_rows d (fo_id F) c of
                   [] \<Rightarrow> Inl (Status 403 ''Access denied'')
                 | p # _ \<Rightarrow>
                     if permissionLevels (p_permission_type p) < permissionLevels required
                     then Inl (Status 403 ''Insufficient permissions'') else Inr ())"
    by (simp add: checkFolderPermission_def folder_rows_of_id [OF pk F])
  from rows own mw show ?thesis by blast
qed

theorem folder_access_level_resolved_witness:
  "folders_pkey example_db \<and> permissions_unique example_db
   \<and> example_folder \<in> set (folders example_db)
   \<and> get_folder example_db 1 1 = Inr (example_folder, Some Owner)
   \<and> get_folder example_db 2 1 = Inr (example_folder, Some (Shared Create))
   \<and> get_folder example_db 3 1 = Inl (Status 404 ''Folder not found or access denied'')
   \<and> checkFolderPermission Edit example_db 2 1 = Inl (Status 403 ''Insufficient permissions'')
   \<and> checkFolderPermission Create example_db 2 1 = Inr ()"
proof -
  have pk: "folders_pkey example_db"
    by (simp add: folders_pkey_def example_defs)
  have un: "permissions_unique example_db"
    by (simp add: permissions_unique_def example_db_def)
  have F: "example_folder \<in> set (folders example_db)"
    by (simp add: example_db_def)
  have id: "fo_id example_folder = 1" "fo_user_id example_folder = 1"
    by (simp_all add: example_folder_def)
  have p2: "permission_rows example_db 1 2 =
              [\<lparr>p_folder_id = 1, p_shared_with_user_id = 2, p_permission_type = Create,
                p_granted_by_user_id = 1\<rparr>]"
    and p3: "permission_rows example_db 1 3 = []"
    by (simp_all add: permission_rows_def example_db_def)
  from folder_access_level_resolved [OF pk un F, of 1]
       folder_access_level_resolved [OF pk un F, of 2 Edit]
       folder_access_level_resolved [OF pk un F, of 2 Create]
       folder_access_level_resolved [OF pk un F, of 3]
  show ?thesis using pk un F p2 p3 by (simp add: id)
qed

lemma file_join_matches:
  "filter (\<lambda>p. f_folder_id f = Some (p_folder_id p) \<and> p_shared_with_user_id p = c) (permissions d)
     = folder_grants d (f_folder_id f) c"
proof (cases "f_folder_id f")
  case None
  then show ?thesis by (simp add: folder_grants_def)
next
  case (Some F)
  then show ?thesis
    unfolding folder_grants_def permission_rows_def
    by (auto intro: filter_cong)
qed

lemma file_rows_of_id:
  assumes pk: "files_pkey d" and f: "f \<in> set (files d)"
  shows "filter (\<lambda>x. f_id x = f_id f) (files d) = [f]"
proof -
  from pk have "distinct (map f_id (files d))" by (simp add: files_pkey_def)
  from filter_key_singleton [OF this f] show ?thesis .
qed

lemma folder_grants_shared:
  "p \<in> set (folder_grants d folder c) \<Longrightarrow> p_shared_with_user_id p = c"
  by (auto simp: folder_grants_def permission_rows_def split: option.splits)

lemma file_access_rows_of_file:
  assumes pk: "files_pkey d" and f: "f \<in> set (files d)"
  shows "file_access_rows d c (f_id f) =
     (if f_user_id f = c
      then (case folder_grants d (f_folder_id f) c of
              [] \<Rightarrow> [(f, Some Owner)] | ms \<Rightarrow> map (\<lambda>_. (f, Some Owner)) ms)
      else map (\<lambda>p. (f, Some (Shared (p_permission_type p)))) (folder_grants d (f_folder_id f) c))"
proof -
  have rows: "file_access_rows d c (f_id f) =
     map (\<lambda>(x, p). (x, access_level_of (f_user_id x) c p))
       (filter (\<lambda>(x, p). owner_or_shared (f_user_id x) c p)
         (case folder_grants d (f_folder_id f) c of
            [] \<Rightarrow> [(f, None)] | ms \<Rightarrow> map (\<lambda>y. (f, Some y)) ms))"
    unfolding file_access_rows_def
    by (simp only: filter_left_join_fst file_rows_of_id [OF pk f] left_join_single
          file_join_matches)
  have keep: "filter (\<lambda>(x, p). owner_or_shared (f_user_id x) c p)
                (map (\<lambda>y. (f, Some y)) (folder_grants d (f_folder_id f) c))
              = map (\<lambda>y. (f, Some y)) (folder_grants d (f_folder_id f) c)"
    by (rule filter_True) (auto simp: owner_or_shared_def dest: folder_grants_shared)
  show ?thesis
  proof (cases "folder_grants d (f_folder_id f) c")
    case Nil
    then show ?thesis
      by (simp add: rows access_level_of_def owner_or_shared_def)
  next
    case (Cons m ms)
    with keep show ?thesis
      by (simp add: rows access_level_of_def)
  qed
qed

lemma get_file_resolved:
  assumes pk: "files_pkey d" and f: "f \<in> set (files d)"
  shows "get_file d c (f_id f) =
           (if f_user_id f = c then Inr (f, Some Owner)
            else case folder_grants d (f_folder_id f) c of
                   [] \<Rightarrow> Inl (Status 404 ''File not found or access denied'')
                 | p # _ \<Rightarrow> Inr (f, Some (Shared (p_permission_type p))))"
  by (simp add: get_file_def file_access_rows_of_file [OF pk f] split: list.splits)

text \<open>
  C2, as the code has it. Let file f be stored directly in folder F. For a caller c who
  owns neither f nor F, the level resolved on f is the level of c's stored grant on F
  (none without a grant), which is the level resolved on F itself: there is no grant on
  a file. The owner of f resolves to \<open>owner\<close> on f, whatever c's level on F is. A
  child folder G of F is governed by its own owner and its own grants: a caller who does
  not own G and holds no grant keyed by G is denied on G and on every file of G he does
  not own, whatever he holds on F. A file in no folder is resolved for its owner only.
\<close>

theorem file_access_follows_folder_grant:
  assumes fpk: "files_pkey d" and opk: "folders_pkey d" and un: "permissions_unique d"
    and f: "f \<in> set (files d)" and F: "F \<in> set (folders d)" and G: "G \<in> set (folders d)"
  shows "(f_folder_id f = Some (fo_id F) \<and> c \<noteq> f_user_id f \<and> c \<noteq> fo_user_id F \<longrightarrow>
            resolved_level (get_file d c (f_id f)) = granted_level (permission_rows d (fo_id F) c)
          \<and> resolved_level (get_file d c (f_id f)) = resolved_level (get_folder d c (fo_id F)))
       \<and> (c = f_user_id f \<longrightarrow> get_file d c (f_id f) = Inr (f, Some Owner))
       \<and> (fo_parent_folder_id G = Some (fo_id F) \<and> c \<noteq> fo_user_id G
            \<and> permission_rows d (fo_id G) c = [] \<longrightarrow>
            get_folder d c (fo_id G) = Inl (Status 404 ''Folder not found or access denied'')
          \<and> (f_folder_id f = Some (fo_id G) \<and> c \<noteq> f_user_id f \<longrightarrow>
               get_file d c (f_id f) = Inl (Status 404 ''File not found or access denied'')))
       \<and> (f_folder_id f = None \<longrightarrow>
            get_file d c (f_id f) =
              (if c = f_user_id f then Inr (f, Some Owner)
               else Inl (Status 404 ''File not found or access denied'')))"
proof -
  note fil = get_file_resolved [OF fpk f, of c]
  note fol = get_folder_resolved [OF opk un]
  have inside: "resolved_level (get_file d c (f_id f)) = granted_level (permission_rows d (fo_id F) c)
      \<and> resolved_level (get_file d c (f_id f)) = resolved_level (get_folder d c (fo_id F))"
    if "f_folder_id f = Some (fo_id F)" "c \<noteq> f_user_id f" "c \<noteq> fo_user_id F"
    using that
    by (auto simp: fil fol [OF F] folder_grants_def resolved_level_def granted_level_def
          split: list.splits)
  have own: "get_file d c (f_id f) = Inr (f, Some Owner)" if "c = f_user_id f"
    using that fil by simp
  have child: "get_folder d c (fo_id G) = Inl (Status 404 ''Folder not found or access denied'')
      \<and> (f_folder_id f = Some (fo_id G) \<and> c \<noteq> f_user_id f \<longrightarrow>
               get_file d c (f_id f) = Inl (Status 404 ''File not found or access denied''))"
    if "c \<noteq> fo_user_id G" "permission_rows d (fo_id G) c = []"
    using that by (auto simp: fil fol [OF G] folder_grants_def)
  have root: "get_file d c (f_id f) =
              (if c = f_user_id f then Inr (f, Some Owner)
               else Inl (Status 404 ''File not found or access denied''))"
    if "f_folder_id f = None"
    using that by (auto simp: fil folder_grants_def)
  from inside own child root show ?thesis by blast
qed

text \<open>
  C2 as stated fails: user 2 holds create on folder 1 and uploaded file 11 into it, and
  resolves to \<open>owner\<close> on the file, not to create; user 1 owns folder 1 and resolves
  to nothing on that file.
\<close>

theorem file_level_differs_from_folder_level:
  "resolved_level (get_folder example_db 2 1) = Some (Shared Create)
   \<and> resolved_level (get_file example_db 2 11) = Some Owner
   \<and> resolved_level (get_file example_db 2 11) \<noteq> resolved_level (get_folder example_db 2 1)
   \<and> resolved_level (get_folder example_db 1 1) = Some Owner
   \<and> resolved_level (get_file example_db 1 11) = None"
  by (simp add: resolved_level_def get_folder_def get_file_def folder_access_rows_def
        file_access_rows_def left_join_def example_defs
        access_level_of_def owner_or_shared_def)

theorem file_access_follows_folder_grant_witness:
  "files_pkey example_db \<and> folders_pkey example_db \<and> permissions_unique example_db
   \<and> example_folder \<in> set (folders example_db) \<and> example_child \<in> set (folders example_db)
   \<and> fo_parent_folder_id example_child = Some (fo_id example_folder)
   \<and> resolved_level (get_file example_db 2 10) = Some (Shared Create)
   \<and> resolved_level (get_folder example_db 2 1) = Some (Shared Create)
   \<and> get_file example_db 2 11 = Inr (example_file 11 2 (Some 1) ''text/plain'' 50000, Some Owner)
   \<and> get_folder example_db 2 2 = Inl (Status 404 ''Folder not found or access denied'')
   \<and> get_file example_db 2 13 = Inl (Status 404 ''File not found or access denied'')
   \<and> get_file example_db 2 12 = Inl (Status 404 ''File not found or access denied'')
   \<and> get_file example_db 1 12 = Inr (example_file 12 1 None ''application/pdf'' 300000, Some Owner)"
proof -
  have fpk: "files_pkey example_db"
    by (simp add: files_pkey_def example_defs)
  have opk: "folders_pkey example_db"
    by (simp add: folders_pkey_def example_defs)
  have un: "permissions_unique example_db"
    by (simp add: permissions_unique_def example_defs)
  have F: "example_folder \<in> set (folders example_db)"
    and G: "example_child \<in> set (folders example_db)"
    by (simp_all add: example_defs)
  have f10: "example_file 10 1 (Some 1) ''image/png'' 400000 \<in> set (files example_db)"
    and f11: "example_file 11 2 (Some 1) ''text/plain'' 50000 \<in> set (files example_db)"
    and f12: "example_file 12 1 None ''application/pdf'' 300000 \<in> set (files example_db)"
    and f13: "example_file 13 1 (Some 2) ''video/mp4'' 200000 \<in> set (files example_db)"
    by (simp_all add: example_db_def)
  have p1: "permission_rows example_db 1 2 =
              [\<lparr>p_folder_id = 1, p_shared_with_user_id = 2, p_permission_type = Create,
                p_granted_by_user_id = 1\<rparr>]"
    and p2: "permission_rows example_db 2 2 = []"
    by (simp_all add: permission_rows_def example_db_def)
  have ids: "f_id (example_file i u fo m n) = i" "f_user_id (example_file i u fo m n) = u"
    "f_folder_id (example_file i u fo m n) = fo" for i u fo m n
    by (simp_all add: example_file_def)
  have fos: "fo_id example_folder = 1" "fo_user_id example_folder = 1"
    "fo_id example_child = 2" "fo_user_id example_child = 1"
    "fo_parent_folder_id example_child = Some 1"
    by (simp_all add: example_folder_def example_child_def)
  from file_access_follows_folder_grant [OF fpk opk un f10 F G, of 2]
  have a: "resolved_level (get_file example_db 2 10) = Some (Shared Create)
     \<and> resolved_level (get_folder example_db 2 1) = Some (Shared Create)
     \<and> get_folder example_db 2 2 = Inl (Status 404 ''Folder not found or access denied'')"
    using p1 p2 by (auto simp add: ids fos granted_level_def)
  from file_access_follows_folder_grant [OF fpk opk un f11 F G, of 2]
  have b: "get_file example_db 2 11 = Inr (example_file 11 2 (Some 1) ''text/plain'' 50000, Some Owner)"
    by (simp add: ids)
  from file_access_follows_folder_grant [OF fpk opk un f13 F G, of 2]
  have c: "get_file example_db 2 13 = Inl (Status 404 ''File not found or access denied'')"
    using p2 by (simp add: ids fos)
  from file_access_follows_folder_grant [OF fpk opk un f12 F G, of 2]
       file_access_follows_folder_grant [OF fpk opk un f12 F G, of 1]
  have d: "get_file example_db 2 12 = Inl (Status 404 ''File not found or access denied'')
     \<and> get_file example_db 1 12 = Inr (example_file 12 1 None ''application/pdf'' 300000, Some Owner)"
    by (simp add: ids)
  from a b c d fpk opk un F G show ?thesis by (simp add: fos)
qed

section \<open>Quota admission: theorems\<close>

lemma foldl_up_size:
  "foldl (\<lambda>sum file. sum + up_size file) a fs = a + sum_list (map up_size fs)"
  by (induction fs arbitrary: a) simp_all

lemma totalUploadSize_sum: "totalUploadSize fs = sum_list (map up_size fs)"
  by (simp add: totalUploadSize_def foldl_up_size)

lemma triple_exists: "\<exists>a b c. x = (a, b, c)"
  by (cases x) auto

lemma upload_multiple_after_checks:
  assumes "req_files \<noteq> []" and "upload_folder_check d uid folder_id = Inr ()"
    and "user_storage_rows d uid = u # us"
  shows "upload_multiple d b uid folder_id req_files =
           (case quota_check_multiple u req_files of
              Inl e \<Rightarrow> Inl e
            | Inr _ \<Rightarrow> Inr (upload_each uid folder_id req_files
                              (\<lparr>successful = [], failed = []\<rparr>, d, b)))"
  using assms by (simp add: upload_multiple_def)

text \<open>
  C3. Once the request has files, the folder check has passed and the user's row has been
  read, POST /upload/multiple goes on to store the batch if and only if the persisted
  storage_used plus the total size of all files of the batch is at most storage_quota,
  and answers 413 (insufficient storage) if and only if it is more. The check is one
  comparison on the sum: a batch over the remaining capacity is rejected as a whole, also
  when each of its files alone would pass the single-file check.
\<close>

theorem batch_admitted_iff_fits:
  assumes "req_files \<noteq> []" and "upload_folder_check d uid folder_id = Inr ()"
    and "user_storage_rows d uid = u # us"
  shows "((\<exists>res. upload_multiple d b uid folder_id req_files = Inr res)
            \<longleftrightarrow> u_storage_used u + sum_list (map up_size req_files) \<le> u_storage_quota u)
       \<and> ((\<exists>requested available limit.
              upload_multiple d b uid folder_id req_files
                = Inl (Insufficient_storage requested available limit))
            \<longleftrightarrow> u_storage_used u + sum_list (map up_size req_files) > u_storage_quota u)
       \<and> (quota_check_multiple u req_files = Inr ()
            \<longleftrightarrow> u_storage_used u + sum_list (map up_size req_files) \<le> u_storage_quota u)"
  unfolding upload_multiple_after_checks [OF assms]
  by (simp add: quota_check_multiple_def totalUploadSize_sum Let_def not_less triple_exists)

lemma example_checks:
  "example_batch \<noteq> []"
  "upload_folder_check example_db 1 None = Inr ()"
  "user_storage_rows example_db 1 = example_user # []"
  by (simp_all add: example_batch_def upload_folder_check_def user_storage_rows_def
        example_db_def example_user_def)

theorem batch_admitted_iff_fits_witness:
  "example_batch \<noteq> []
   \<and> upload_folder_check example_db 1 None = Inr ()
   \<and> user_storage_rows example_db 1 = [example_user]
   \<and> \<not> (\<exists>res. upload_multiple example_db example_b2 1 None example_batch = Inr res)
   \<and> quota_check_single example_user (example_batch ! 0) = Inr ()
   \<and> quota_check_single example_user (example_batch ! 1) = Inr ()
   \<and> (\<exists>res. upload_multiple example_db example_b2 1 None [example_batch ! 0] = Inr res)"
proof -
  have one: "[example_batch ! 0] \<noteq> []" by simp
  have sizes: "sum_list (map up_size example_batch) = 150000"
    "up_size (example_batch ! 0) = 80000"
    by (simp_all add: example_batch_def)
  have u: "u_storage_used example_user = 900000" "u_storage_quota example_user = 1000000"
    by (simp_all add: example_user_def)
  from batch_admitted_iff_fits [OF example_checks, of example_b2]
  have rejected: "\<not> (\<exists>res. upload_multiple example_db example_b2 1 None example_batch = Inr res)"
    by (simp add: sizes u)
  from batch_admitted_iff_fits [OF one example_checks(2,3), of example_b2]
  have admitted: "\<exists>res. upload_multiple example_db example_b2 1 None [example_batch ! 0] = Inr res"
    by (simp add: sizes u)
  have single: "quota_check_single example_user (example_batch ! 0) = Inr ()"
    "quota_check_single example_user (example_batch ! 1) = Inr ()"
    by (simp_all add: quota_check_single_def example_batch_def u)
  from rejected admitted single example_checks show ?thesis by simp
qed

text \<open>
  C9, as the code has it. A rejected batch is answered with the requested total, the
  remaining capacity (quota minus used) and the quota, each printed by formatBytes: in
  MB, or in GB from one GiB on, with two decimals. For quota 1,000,000 and used 900,000
  with a batch of 150,000 bytes the response carries totalUploadSize 0.14MB and
  availableSpace 0.10MB.
\<close>

theorem quota_rejection_reports_formatted_sizes:
  assumes "req_files \<noteq> []" and "upload_folder_check d uid folder_id = Inr ()"
    and "user_storage_rows d uid = u # us"
    and "u_storage_used u + sum_list (map up_size req_files) > u_storage_quota u"
  shows "upload_multiple d b uid folder_id req_files =
           Inl (Insufficient_storage
                  (formatBytes (sum_list (map up_size req_files)))
                  (formatBytes (u_storage_quota u - u_storage_used u))
                  (formatBytes (u_storage_quota u)))
       \<and> formatBytes 150000 = ''0.14MB'' \<and> formatBytes (1000000 - 900000) = ''0.10MB''"
proof -
  have "upload_multiple d b uid folder_id req_files =
           Inl (Insufficient_storage
                  (formatBytes (sum_list (map up_size req_files)))
                  (formatBytes (u_storage_quota u - u_storage_used u))
                  (formatBytes (u_storage_quota u)))"
    unfolding upload_multiple_after_checks [OF assms(1-3)]
    using assms(4) by (simp add: quota_check_multiple_def totalUploadSize_sum Let_def)
  moreover have "formatBytes 150000 = ''0.14MB''"
    by (simp add: formatBytes_def toFixed2_def digit_char_def)
  moreover have "formatBytes (1000000 - 900000) = ''0.10MB''"
    by (simp add: formatBytes_def toFixed2_def digit_char_def)
  ultimately show ?thesis by simp
qed

theorem quota_rejection_reports_formatted_sizes_witness:
  "example_batch \<noteq> []
   \<and> upload_folder_check example_db 1 None = Inr ()
   \<and> user_storage_rows example_db 1 = [example_user]
   \<and> u_storage_used example_user + sum_list (map up_size example_batch) > u_storage_quota example_user
   \<and> upload_multiple example_db example_b2 1 None example_batch =
       Inl (Insufficient_storage ''0.14MB'' ''0.10MB'' ''0.95MB'')"
proof -
  have sizes: "sum_list (map up_size example_batch) = 150000"
    by (simp add: example_batch_def)
  have u: "u_storage_used example_user = 900000" "u_storage_quota example_user = 1000000"
    by (simp_all add: example_user_def)
  have over: "u_storage_used example_user + sum_list (map up_size example_batch)
                > u_storage_quota example_user"
    by (simp add: sizes u)
  have limit: "formatBytes 1000000 = ''0.95MB''"
    by (simp add: formatBytes_def toFixed2_def digit_char_def)
  from quota_rejection_reports_formatted_sizes [OF example_checks over, of example_b2]
  have "upload_multiple example_db example_b2 1 None example_batch =
       Inl (Insufficient_storage ''0.14MB'' ''0.10MB'' ''0.95MB'')"
    by (simp add: sizes u limit)
  with over example_checks show ?thesis by simp
qed

text \<open>
  C9 as stated fails: in that scenario the figures of the response are not the byte
  counts 150000 and 100000.
\<close>

theorem quota_rejection_not_in_bytes:
  "u_storage_quota example_user = 1000000 \<and> u_storage_used example_user = 900000
   \<and> sum_list (map up_size example_batch) = 150000
   \<and> upload_multiple example_db example_b2 1 None example_batch =
       Inl (Insufficient_storage ''0.14MB'' ''0.10MB'' ''0.95MB'')
   \<and> ''0.14MB'' \<noteq> string_of_nat 150000
   \<and> ''0.10MB'' \<noteq> string_of_nat 100000"
  by (simp add: upload_multiple_def upload_folder_check_def user_storage_rows_def
        quota_check_multiple_def totalUploadSize_def example_db_def example_batch_def
        example_user_def formatBytes_def toFixed2_def digit_char_def)

section \<open>Reconciliation: theorems\<close>

lemma user_rows_of_id:
  assumes pk: "users_pkey d" and u: "u \<in> set (users d)"
  shows "user_storage_rows d (u_id u) = [u]"
proof -
  from pk have "distinct (map u_id (users d))" by (simp add: users_pkey_def)
  from filter_key_singleton [OF this u] show ?thesis by (simp add: user_storage_rows_def)
qed

lemma actual_used_users_update [simp]: "actual_used (d\<lparr>users := us\<rparr>) uid = actual_used d uid"
  by (simp add: actual_used_def)

lemma storage_used_of_set:
  "storage_used_of (d\<lparr>users := map (\<lambda>x. if u_id x = uid then x\<lparr>u_storage_used := a\<rparr> else x) (users d)\<rparr>) uid
     = map (\<lambda>_. a) (storage_used_of d uid)"
  using used_after_update [of uid uid "\<lambda>_. a" "users d"]
  by (simp add: storage_used_of_def user_storage_rows_def)

text \<open>
  C5. In any state of the database (whatever uploads and deletes led to it), GET /stats
  for an existing user leaves the user's persisted storage_used equal to the exact sum of
  the sizes of the files the user owns: the value is rewritten when it differs from the
  sum, and nothing is written when it already equals it. The response reports the same
  sum as used.
\<close>

theorem reconcile_persists_actual_usage:
  assumes pk: "users_pkey d" and u: "u \<in> set (users d)"
  shows "\<exists>resp d'. stats d (u_id u) = Inr (resp, d')
           \<and> storage_used_of d' (u_id u) = [actual_used d' (u_id u)]
           \<and> actual_used d' (u_id u)
               = sum_list (map f_size (filter (\<lambda>f. f_user_id f = u_id u) (files d')))
           \<and> files d' = files d
           \<and> st_used resp = actual_used d (u_id u)
           \<and> (if u_storage_used u = actual_used d (u_id u) then d' = d
               else users d' = map (\<lambda>x. if u_id x = u_id u
                                         then x\<lparr>u_storage_used := actual_used d (u_id u)\<rparr> else x)
                                 (users d))"
proof -
  note rows = user_rows_of_id [OF pk u]
  have used: "storage_used_of d (u_id u) = [u_storage_used u]"
    by (simp add: storage_used_of_def rows)
  show ?thesis
  proof (cases "u_storage_used u = actual_used d (u_id u)")
    case True
    then show ?thesis
      by (simp add: stats_def rows Let_def used) (simp add: actual_used_def)
  next
    case False
    then show ?thesis
      by (simp add: stats_def rows Let_def storage_used_of_set used) (simp add: actual_used_def)
  qed
qed

theorem reconcile_persists_actual_usage_witness:
  "users_pkey drifted_db
   \<and> example_user \<in> set (users drifted_db)
   \<and> storage_used_of drifted_db 1 = [900000]
   \<and> actual_used drifted_db 1 = 500000
   \<and> (\<exists>resp d'. stats drifted_db 1 = Inr (resp, d')
         \<and> storage_used_of d' 1 = [500000] \<and> actual_used d' 1 = 500000 \<and> st_used resp = 500000)"
proof -
  have pk: "users_pkey drifted_db"
    by (simp add: users_pkey_def drifted_db_def delete_files_row_def example_db_def)
  have u: "example_user \<in> set (users drifted_db)"
    by (simp add: drifted_db_def delete_files_row_def example_db_def example_user_def)
  have id: "u_id example_user = 1" "u_storage_used example_user = 900000"
    by (simp_all add: example_user_def)
  have used: "storage_used_of drifted_db 1 = [900000]"
    by (simp add: storage_used_of_def user_storage_rows_def drifted_db_def delete_files_row_def
          example_db_def)
  have actual: "actual_used drifted_db 1 = 500000"
    by (simp add: actual_used_def drifted_db_def delete_files_row_def example_defs)
  from reconcile_persists_actual_usage [OF pk u] id actual
  have "\<exists>resp d'. stats drifted_db 1 = Inr (resp, d')
         \<and> storage_used_of d' 1 = [500000] \<and> actual_used d' 1 = 500000 \<and> st_used resp = 500000"
    by (auto simp: actual_used_def)
  with pk u used actual show ?thesis by blast
qed

section \<open>Coupon redemption: theorems\<close>

lemma quota_after_update:
  "map u_storage_quota (filter (\<lambda>u. u_id u = uid)
       (map (\<lambda>u. if u_id u = uid then u\<lparr>u_storage_quota := g (u_storage_quota u)\<rparr> else u) us))
     = map g (map u_storage_quota (filter (\<lambda>u. u_id u = uid) us))"
  by (induction us) auto

lemma redeem_success_form:
  assumes "redeem_coupon d now uid code = Inr (resp, d1)"
  shows "\<exists>c cs. valid_coupons d now (toUpperCase code) = c # cs
           \<and> redemptionCheck d uid (c_id c) = []
           \<and> resp = \<lparr>storageGranted = c_storage_bonus c, couponCode = c_code c\<rparr>
           \<and> users d1 = map (\<lambda>u. if u_id u = uid
                                    then u\<lparr>u_storage_quota := u_storage_quota u + c_storage_bonus c\<rparr>
                                    else u) (users d)
           \<and> coupon_redemptions d1 = coupon_redemptions d @
                 [\<lparr>cr_user_id = uid, cr_coupon_id = c_id c, cr_storage_granted = c_storage_bonus c\<rparr>]
           \<and> coupons d1 = map (\<lambda>x. if c_id x = c_id c
                                     then x\<lparr>c_current_uses := c_current_uses x + 1\<rparr> else x)
                                (coupons d)"
proof (cases "valid_coupons d now (toUpperCase code)")
  case Nil
  with assms show ?thesis by (simp add: redeem_coupon_def split: if_splits)
next
  case (Cons c cs)
  show ?thesis
  proof (cases "redemptionCheck d uid (c_id c) = []")
    case False
    with assms Cons show ?thesis by (simp add: redeem_coupon_def split: if_splits)
  next
    case True
    from assms Cons True
    have "resp = \<lparr>storageGranted = c_storage_bonus c, couponCode = c_code c\<rparr>"
      and "d1 = d\<lparr>users := map (\<lambda>u. if u_id u = uid
                                    then u\<lparr>u_storage_quota := u_storage_quota u + c_storage_bonus c\<rparr>
                                    else u) (users d),
                  coupon_redemptions := coupon_redemptions d @
                    [\<lparr>cr_user_id = uid, cr_coupon_id = c_id c, cr_storage_granted = c_storage_bonus c\<rparr>],
                  coupons := map (\<lambda>x. if c_id x = c_id c
                                     then x\<lparr>c_current_uses := c_current_uses x + 1\<rparr> else x)
                                (coupons d)\<rparr>"
      by (simp_all add: redeem_coupon_def Let_def split: if_splits)
    with Cons True show ?thesis by simp
  qed
qed

lemma key_unique:
  "distinct (map k xs) \<Longrightarrow> x \<in> set xs \<Longrightarrow> y \<in> set xs \<Longrightarrow> k x = k y \<Longrightarrow> x = y"
  by (auto simp: distinct_map dest: inj_onD)

lemma valid_coupons_mem:
  "x \<in> set (valid_coupons d now code) \<Longrightarrow> x \<in> set (coupons d) \<and> c_code x = code"
  by (simp add: valid_coupons_def)

text \<open>
  C7, as the code has it. When a redemption succeeds, the user's storage_quota is raised
  by the coupon's storage bonus and one redemption row is recorded. Every later attempt
  of the same user with the same code is rejected and writes nothing: with the
  already-redeemed error while the coupon is still valid (active, not expired, uses
  left), and with the invalid-or-expired error otherwise, because the validity of the
  coupon is checked before the user's redemptions are looked at. The unique key on the
  coupon code is the schema's.
\<close>

theorem coupon_redeemed_once:
  assumes uq: "coupons_code_unique d"
    and first: "redeem_coupon d now uid code = Inr (resp, d1)"
  shows "storage_quota_of d1 uid = map (\<lambda>q. q + storageGranted resp) (storage_quota_of d uid)
       \<and> (\<exists>c \<in> set (coupons d). c_code c = toUpperCase code
             \<and> storageGranted resp = c_storage_bonus c
             \<and> coupon_redemptions d1 = coupon_redemptions d @
                 [\<lparr>cr_user_id = uid, cr_coupon_id = c_id c, cr_storage_granted = c_storage_bonus c\<rparr>])
       \<and> redeem_coupon d1 later uid code =
           (if valid_coupons d1 later (toUpperCase code) = []
            then Inl (Status 400 ''Invalid or expired coupon code'')
            else Inl (Status 400 ''You have already redeemed this coupon''))"
proof -
  from redeem_success_form [OF first] obtain c cs where
    valid: "valid_coupons d now (toUpperCase code) = c # cs"
    and resp: "resp = \<lparr>storageGranted = c_storage_bonus c, couponCode = c_code c\<rparr>"
    and users: "users d1 = map (\<lambda>u. if u_id u = uid
                                    then u\<lparr>u_storage_quota := u_storage_quota u + c_storage_bonus c\<rparr>
                                    else u) (users d)"
    and reds: "coupon_redemptions d1 = coupon_redemptions d @
                 [\<lparr>cr_user_id = uid, cr_coupon_id = c_id c, cr_storage_granted = c_storage_bonus c\<rparr>]"
    and coups: "coupons d1 = map (\<lambda>x. if c_id x = c_id c
                                     then x\<lparr>c_current_uses := c_current_uses x + 1\<rparr> else x)
                                (coupons d)"
    by blast
  from valid have "c \<in> set (valid_coupons d now (toUpperCase code))" by simp
  from valid_coupons_mem [OF this]
  have c: "c \<in> set (coupons d)" "c_code c = toUpperCase code" by simp_all
  have nonempty: "code \<noteq> []"
    using first by (auto simp: redeem_coupon_def split: if_splits)
  have credit: "storage_quota_of d1 uid = map (\<lambda>q. q + storageGranted resp) (storage_quota_of d uid)"
    using quota_after_update [of uid "\<lambda>q. q + c_storage_bonus c" "users d"]
    by (simp add: storage_quota_of_def user_storage_rows_def users resp)
  have recorded: "\<exists>c \<in> set (coupons d). c_code c = toUpperCase code
             \<and> storageGranted resp = c_storage_bonus c
             \<and> coupon_redemptions d1 = coupon_redemptions d @
                 [\<lparr>cr_user_id = uid, cr_coupon_id = c_id c, cr_storage_granted = c_storage_bonus c\<rparr>]"
    using c reds resp by auto
  have same: "c_id x = c_id c" if "x \<in> set (valid_coupons d1 later (toUpperCase code))" for x
  proof -
    from valid_coupons_mem [OF that]
    have "x \<in> set (coupons d1)" and code: "c_code x = toUpperCase code" by simp_all
    then obtain y where y: "y \<in> set (coupons d)"
      and x: "x = (if c_id y = c_id c then y\<lparr>c_current_uses := c_current_uses y + 1\<rparr> else y)"
      unfolding coups by auto
    from x code have "c_code y = toUpperCase code" by (simp split: if_splits)
    with c have eq: "c_code y = c_code c" by simp
    from uq have "distinct (map c_code (coupons d))" by (simp add: coupons_code_unique_def)
    from key_unique [OF this y c(1) eq] have "y = c" .
    with x show ?thesis by simp
  qed
  have again: "redeem_coupon d1 later uid code =
           (if valid_coupons d1 later (toUpperCase code) = []
            then Inl (Status 400 ''Invalid or expired coupon code'')
            else Inl (Status 400 ''You have already redeemed this coupon''))"
  proof (cases "valid_coupons d1 later (toUpperCase code)")
    case Nil
    with nonempty show ?thesis by (simp add: redeem_coupon_def)
  next
    case (Cons x xs)
    have "x \<in> set (valid_coupons d1 later (toUpperCase code))"
      unfolding Cons by simp
    from same [OF this] have "redemptionCheck d1 uid (c_id x) \<noteq> []"
      by (simp add: redemptionCheck_def reds)
    with nonempty show ?thesis by (simp add: redeem_coupon_def Cons)
  qed
  from credit recorded again show ?thesis by blast
qed

text \<open>
  C7 as stated fails: a coupon with max_uses = 1 is exhausted by its first redemption,
  and the same user's second attempt is answered "Invalid or expired coupon code".
\<close>

theorem second_redemption_reports_invalid:
  "map_sum id (\<lambda>(resp, d1). (storageGranted resp, redeem_coupon d1 0 3 ''once''))
     (redeem_coupon example_db 0 3 ''once'')
   = Inr (1024, Inl (Status 400 ''Invalid or expired coupon code''))
   \<and> Status 400 ''Invalid or expired coupon code'' \<noteq> Status 400 ''You have already redeemed this coupon''"
  by (simp add: redeem_coupon_def valid_coupons_def redemptionCheck_def toUpperCase_def
        example_db_def Let_def)


theorem coupon_redeemed_once_witness:
  "coupons_code_unique example_db
   \<and> redeem_coupon example_db 0 3 ''welcome200''
       = Inr (\<lparr>storageGranted = 214748364800, couponCode = ''WELCOME200''\<rparr>, redeemed_db)
   \<and> storage_quota_of example_db 3 = [5368709120]
   \<and> storage_quota_of redeemed_db 3 = [220117073920]
   \<and> length (coupon_redemptions redeemed_db) = Suc (length (coupon_redemptions example_db))
   \<and> redeem_coupon redeemed_db 5 3 ''welcome200''
       = Inl (Status 400 ''You have already redeemed this coupon'')
   \<and> redeem_coupon redeemed_db 2000 3 ''welcome200''
       = Inl (Status 400 ''Invalid or expired coupon code'')"
proof -
  have uq: "coupons_code_unique example_db"
    by (simp add: coupons_code_unique_def example_db_def)
  have first: "redeem_coupon example_db 0 3 ''welcome200''
       = Inr (\<lparr>storageGranted = 214748364800, couponCode = ''WELCOME200''\<rparr>, redeemed_db)"
    by (simp add: redeemed_db_def redeem_coupon_def valid_coupons_def redemptionCheck_def
          toUpperCase_def example_db_def Let_def)
  have before: "storage_quota_of example_db 3 = [5368709120]"
    by (simp add: storage_quota_of_def user_storage_rows_def example_db_def)
  have still: "valid_coupons redeemed_db 5 (toUpperCase ''welcome200'') \<noteq> []"
    and expired: "valid_coupons redeemed_db 2000 (toUpperCase ''welcome200'') = []"
    by (simp_all add: redeemed_db_def redeem_coupon_def valid_coupons_def redemptionCheck_def
          toUpperCase_def example_db_def Let_def)
  from coupon_redeemed_once [OF uq first, of 5] before still
  have a: "storage_quota_of redeemed_db 3 = [220117073920]
     \<and> length (coupon_redemptions redeemed_db) = Suc (length (coupon_redemptions example_db))
     \<and> redeem_coupon redeemed_db 5 3 ''welcome200''
         = Inl (Status 400 ''You have already redeemed this coupon'')"
    by auto
  from coupon_redeemed_once [OF uq first, of 2000] expired
  have b: "redeem_coupon redeemed_db 2000 3 ''welcome200''
       = Inl (Status 400 ''Invalid or expired coupon code'')"
    by simp
  from uq first before a b show ?thesis by simp
qed

section \<open>Revocation of public shares: theorems\<close>

lemma revoke_share_form:
  assumes pk: "files_pkey d" and f: "f \<in> set (files d)"
    and rev: "revoke_share d r uid (f_id f) = Inr (d', r')"
  shows "f_user_id f = uid
       \<and> d' = d\<lparr>files := map (\<lambda>x. if f_id x = f_id f
                                    then x\<lparr>f_public_share_token := None, f_is_public := False\<rparr>
                                    else x) (files d)\<rparr>
       \<and> r' = (case f_public_share_token f of
                 None \<Rightarrow> r
               | Some t \<Rightarrow> if t = [] then r else snd (redis_del r (''public:'' @ t)))"
proof (cases "filter (\<lambda>x. f_id x = f_id f \<and> f_user_id x = uid) (files d)")
  case Nil
  with rev show ?thesis by (simp add: revoke_share_def)
next
  case (Cons x rest)
  then have "x \<in> set (filter (\<lambda>x. f_id x = f_id f \<and> f_user_id x = uid) (files d))" by simp
  then have x: "x \<in> set (files d)" "f_id x = f_id f" "f_user_id x = uid" by simp_all
  from pk have "distinct (map f_id (files d))" by (simp add: files_pkey_def)
  from key_unique [OF this x(1) f x(2)] have xf: "x = f" .
  from Cons xf have rows: "filter (\<lambda>x. f_id x = f_id f \<and> f_user_id x = uid) (files d) = f # rest"
    by simp
  from x(3) xf have own: "f_user_id f = uid" by simp
  from rev have "d' = d\<lparr>files := map (\<lambda>x. if f_id x = f_id f
                                    then x\<lparr>f_public_share_token := None, f_is_public := False\<rparr>
                                    else x) (files d)\<rparr>"
    and "r' = (case f_public_share_token f of
                 None \<Rightarrow> r
               | Some t \<Rightarrow> if t = [] then r else snd (redis_del r (''public:'' @ t)))"
    unfolding revoke_share_def rows by (simp_all add: Let_def)
  with own show ?thesis by simp
qed

lemma no_public_row_after_revoke:
  assumes un: "share_token_unique d" and f: "f \<in> set (files d)"
    and t: "f_public_share_token f = Some t"
  shows "filter (\<lambda>x. f_public_share_token x = Some t \<and> f_is_public x)
           (map (\<lambda>x. if f_id x = f_id f
                      then x\<lparr>f_public_share_token := None, f_is_public := False\<rparr> else x)
                (files d)) = []"
proof -
  have same: "f_id x = f_id f" if "x \<in> set (files d)" "f_public_share_token x = Some t" for x
  proof -
    from that t have "f_public_share_token x \<noteq> None \<and> f_public_share_token x = f_public_share_token f"
      by simp
    with un that(1) f show ?thesis unfolding share_token_unique_def by blast
  qed
  show ?thesis
    unfolding filter_empty_conv
  proof
    fix y
    assume "y \<in> set (map (\<lambda>x. if f_id x = f_id f
                      then x\<lparr>f_public_share_token := None, f_is_public := False\<rparr> else x)
                (files d))"
    then obtain x where x: "x \<in> set (files d)"
      and y: "y = (if f_id x = f_id f
                   then x\<lparr>f_public_share_token := None, f_is_public := False\<rparr> else x)"
      by auto
    show "\<not> (f_public_share_token y = Some t \<and> f_is_public y)"
    proof (cases "f_id x = f_id f")
      case True
      with y show ?thesis by simp
    next
      case False
      with y have "y = x" by simp
      with same [OF x] False show ?thesis by auto
    qed
  qed
qed

lemma public_access_miss:
  assumes "getPublicShare r t = None"
    and "filter (\<lambda>x. f_public_share_token x = Some t \<and> f_is_public x) (files d) = []"
  shows "public_access d r t = Inl (Status 404 ''File not found or share link expired'')"
  using assms by (simp add: public_access_def)

lemma map_of_filter_key: "map_of (filter (\<lambda>(k, _). k \<noteq> key) xs) key = None"
  by (induction xs) auto

lemma deleted_entry_gone:
  assumes "isConnected r" "\<not> client_fails r"
  shows "getPublicShare ((snd (redis_del r (''public:'' @ t)))\<lparr>isConnected := c, client_fails := b\<rparr>) t = None"
  using assms
  by (simp add: getPublicShare_def redis_get_def redis_del_def map_of_filter_key)


text \<open>
  C6, as the code has it. After a revoke the file's row has is_public = false and
  public_share_token = NULL. Resolving the token the file carried returns NotFound as soon
  as the cache serves no entry for it: in particular at once, also when the share was
  cached a moment before, whenever the revoke's deletion of the cache entry went through
  (the cache connected and the command not failing), and then whatever the cache's
  connection does afterwards. The unique key on the token is the schema's.
\<close>

theorem revoked_share_not_found_once_uncached:
  assumes pk: "files_pkey d" and un: "share_token_unique d" and f: "f \<in> set (files d)"
    and t: "f_public_share_token f = Some t"
    and rev: "revoke_share d r uid (f_id f) = Inr (d', r')"
  shows "(\<forall>x \<in> set (files d'). f_id x = f_id f \<longrightarrow> \<not> f_is_public x \<and> f_public_share_token x = None)
       \<and> (getPublicShare r' t = None \<longrightarrow>
            public_access d' r' t = Inl (Status 404 ''File not found or share link expired''))
       \<and> (isConnected r \<and> \<not> client_fails r \<and> t \<noteq> [] \<longrightarrow>
            public_access d' r' t = Inl (Status 404 ''File not found or share link expired'')
          \<and> (\<forall>c b. public_access d' (r'\<lparr>isConnected := c, client_fails := b\<rparr>) t
                      = Inl (Status 404 ''File not found or share link expired'')))"
proof -
  from revoke_share_form [OF pk f rev] t
  have d': "files d' = map (\<lambda>x. if f_id x = f_id f
                                    then x\<lparr>f_public_share_token := None, f_is_public := False\<rparr>
                                    else x) (files d)"
    and r': "r' = (if t = [] then r else snd (redis_del r (''public:'' @ t)))"
    by simp_all
  have row: "\<forall>x \<in> set (files d'). f_id x = f_id f \<longrightarrow> \<not> f_is_public x \<and> f_public_share_token x = None"
    unfolding d' by auto
  have none: "filter (\<lambda>x. f_public_share_token x = Some t \<and> f_is_public x) (files d') = []"
    unfolding d' by (rule no_public_row_after_revoke [OF un f t])
  have miss: "public_access d' r'' t = Inl (Status 404 ''File not found or share link expired'')"
    if "getPublicShare r'' t = None" for r''
    using that none by (rule public_access_miss)
  have gone: "public_access d' (r'\<lparr>isConnected := c, client_fails := b\<rparr>) t
                = Inl (Status 404 ''File not found or share link expired'')"
    if "isConnected r" "\<not> client_fails r" "t \<noteq> []" for c b
  proof -
    from that(3) have "r' = snd (redis_del r (''public:'' @ t))" by (simp add: r')
    with deleted_entry_gone [OF that(1,2), where t = t and c = c and b = b]
    have "getPublicShare (r'\<lparr>isConnected := c, client_fails := b\<rparr>) t = None" by simp
    then show ?thesis by (rule miss)
  qed
  have now: "public_access d' r' t = Inl (Status 404 ''File not found or share link expired'')"
    if "isConnected r" "\<not> client_fails r" "t \<noteq> []"
    using gone [OF that, where c = "isConnected r'" and b = "client_fails r'"] by simp
  from row miss gone now show ?thesis by blast
qed

lemmas revoke_eval_defs =
  stale_db_def stale_redis_def reshared_revoked_def revoke_share_def redis_del_def
  redis_on_error_def redis_on_connect_def share_eval_defs

text \<open>
  C6 as stated fails. The share of file 10 is cached; the cache client reports an error,
  the revoke skips the deletion and still answers success; the client reconnects, and the
  revoked token is served from the cache although the row says not public. Without any
  fault: the file is shared a second time, the share is revoked, and the first token,
  whose cache entry nobody deleted, is still served.
\<close>

theorem revoked_share_served_from_cache:
  "revoke_share shared_db (redis_on_error shared_redis) 1 10 = Inr (stale_db, stale_redis)
   \<and> map (\<lambda>x. (f_id x, f_is_public x, f_public_share_token x)) (files stale_db) ! 0
       = (10, False, None)
   \<and> map_sum id (\<lambda>(dl, _). content_disposition dl)
        (public_access stale_db (redis_on_connect stale_redis) ''token-10'')
       = Inr (Some (inline, ''file10''))
   \<and> map (\<lambda>x. (f_id x, f_is_public x, f_public_share_token x)) (files (fst reshared_revoked)) ! 0
       = (10, False, None)
   \<and> map_sum id (\<lambda>(dl, _). content_disposition dl)
        (public_access (fst reshared_revoked) (snd reshared_revoked) ''token-10'')
       = Inr (Some (inline, ''file10''))"
  by (simp add: revoke_eval_defs)


theorem revoked_share_not_found_once_uncached_witness:
  "files_pkey shared_db \<and> share_token_unique shared_db
   \<and> shared_file \<in> set (files shared_db)
   \<and> f_public_share_token shared_file = Some ''token-10''
   \<and> isConnected shared_redis \<and> \<not> client_fails shared_redis
   \<and> getPublicShare shared_redis ''token-10'' \<noteq> None
   \<and> (\<exists>d' r'. revoke_share shared_db shared_redis 1 10 = Inr (d', r')
         \<and> public_access d' r' ''token-10''
             = Inl (Status 404 ''File not found or share link expired'')
         \<and> (\<forall>x \<in> set (files d'). f_id x = 10 \<longrightarrow> \<not> f_is_public x \<and> f_public_share_token x = None))"
proof -
  have files: "files shared_db =
      [shared_file,
       example_file 11 2 (Some 1) ''text/plain'' 50000,
       example_file 12 1 None ''application/pdf'' 300000,
       example_file 13 1 (Some 2) ''video/mp4'' 200000]"
    by (simp add: shared_file_def share_eval_defs)
  have pk: "files_pkey shared_db"
    unfolding files_pkey_def files by (simp add: shared_file_def example_file_def)
  have un: "share_token_unique shared_db"
    unfolding share_token_unique_def files by (simp add: shared_file_def example_file_def)
  have f: "shared_file \<in> set (files shared_db)"
    unfolding files by simp
  have t: "f_public_share_token shared_file = Some ''token-10''"
    and id: "f_id shared_file = 10"
    by (simp_all add: shared_file_def example_file_def)
  have conn: "isConnected shared_redis" "\<not> client_fails shared_redis"
    and cached: "getPublicShare shared_redis ''token-10'' \<noteq> None"
    by (simp_all add: share_eval_defs)
  have "\<exists>d' r'. revoke_share shared_db shared_redis 1 10 = Inr (d', r')"
    unfolding revoke_share_def files by (simp add: shared_file_def example_file_def Let_def)
  then obtain d' r' where rev: "revoke_share shared_db shared_redis 1 (f_id shared_file) = Inr (d', r')"
    unfolding id by blast
  from revoked_share_not_found_once_uncached [OF pk un f t rev] conn
  have "public_access d' r' ''token-10'' = Inl (Status 404 ''File not found or share link expired'')"
    and "\<forall>x \<in> set (files d'). f_id x = 10 \<longrightarrow> \<not> f_is_public x \<and> f_public_share_token x = None"
    unfolding id by simp_all
  with rev pk un f t conn cached show ?thesis unfolding id by blast
qed

section \<open>Quota commit: theorems\<close>

lemma uploadFile_stored:
  "uploadFile b n = Some (i, b1) \<Longrightarrow> (i, n) \<in> set (b2_objects b1)"
  by (auto simp: uploadFile_def split: if_splits)

lemma uploadFile_keeps:
  "uploadFile b n = Some (i, b1) \<Longrightarrow> set (b2_objects b) \<subseteq> set (b2_objects b1)"
  by (auto simp: uploadFile_def split: if_splits)

lemma thumbnail_step_keeps:
  "set (b2_objects b) \<subseteq> set (b2_objects (snd (thumbnail_step b file)))"
  by (auto simp: thumbnail_step_def processAndUploadThumbnail_def
        split: option.splits if_splits dest: uploadFile_keeps)

lemma upload_success_form:
  assumes "upload d b uid folder_id (Some file) = Inr (row, d', b')"
  shows "\<exists>fileId b1. uploadFile b (up_uniqueFileName file) = Some (fileId, b1)
           \<and> b' = snd (thumbnail_step b1 file)
           \<and> row = fst (insert_file d uid folder_id file fileId (fst (thumbnail_step b1 file)))
           \<and> d' = increase_storage_used
                    (snd (insert_file d uid folder_id file fileId (fst (thumbnail_step b1 file))))
                    (up_size file) uid"
  using assms
  by (auto simp: upload_def split: sum.splits list.splits option.splits prod.splits)

lemma insert_file_facts:
  "f_backblaze_file_id (fst (insert_file d uid folder_id file fileId th)) = fileId"
  "fst (insert_file d uid folder_id file fileId th)
     \<in> set (files (snd (insert_file d uid folder_id file fileId th)))"
  "storage_used_of (snd (insert_file d uid folder_id file fileId th)) u = storage_used_of d u"
  by (simp_all add: insert_file_def Let_def)

lemma files_increase [simp]: "files (increase_storage_used d n uid) = files d"
  by (simp add: increase_storage_used_def)

lemma files_decrease [simp]: "files (decrease_storage_used d n uid) = files d"
  by (simp add: decrease_storage_used_def)

lemma upload_some:
  assumes "upload d b uid folder_id (Some file) = Inr (row, d', b')"
  shows "(\<exists>b1. uploadFile b (up_uniqueFileName file) = Some (f_backblaze_file_id row, b1))
     \<and> (f_backblaze_file_id row, up_uniqueFileName file) \<in> set (b2_objects b')
     \<and> row \<in> set (files d')
     \<and> storage_used_of d' uid = map (\<lambda>x. x + up_size file) (storage_used_of d uid)"
proof -
  from upload_success_form [OF assms] obtain fileId b1 where
    up: "uploadFile b (up_uniqueFileName file) = Some (fileId, b1)"
    and b': "b' = snd (thumbnail_step b1 file)"
    and row: "row = fst (insert_file d uid folder_id file fileId (fst (thumbnail_step b1 file)))"
    and d': "d' = increase_storage_used
                    (snd (insert_file d uid folder_id file fileId (fst (thumbnail_step b1 file))))
                    (up_size file) uid"
    by blast
  from uploadFile_stored [OF up] thumbnail_step_keeps [where b = b1]
  have stored: "(fileId, up_uniqueFileName file) \<in> set (b2_objects b')"
    unfolding b' by blast
  have id: "f_backblaze_file_id row = fileId"
    by (simp add: row insert_file_facts)
  from up stored show ?thesis
    by (simp add: id) (simp add: row d' insert_file_facts storage_used_of_increase)
qed

lemma upload_none:
  "uploadFile b (up_uniqueFileName file) = None \<Longrightarrow>
     upload d b uid folder_id (Some file) \<noteq> Inr res"
  by (auto simp: upload_def split: sum.splits list.splits)

lemma delete_file_admitted:
  assumes "file_access_rows d caller fileId = (f, a) # rest" and "owner_or_edit a"
  shows "delete_file d b caller fileId =
           Inr (decrease_storage_used (delete_files_row d fileId) (f_size f) (f_user_id f),
                deleteFile_logged b f)"
  using assms by (simp add: delete_file_def Let_def)

lemma delete_file_only_admitted:
  assumes "delete_file d b caller fileId = Inr (d', b')"
  shows "\<exists>f a rest. file_access_rows d caller fileId = (f, a) # rest \<and> owner_or_edit a"
  using assms
  by (cases "file_access_rows d caller fileId")
     (auto simp: delete_file_def split: if_splits)

lemma storage_used_of_row_delete [simp]:
  "storage_used_of (delete_files_row d i) uid = storage_used_of d uid"
  by (simp add: delete_files_row_def)

text \<open>
  C4, as the code has it. On upload the counter is raised only after the object store
  has taken the blob and the row is inserted: when uploadFile fails no upload succeeds,
  and a successful upload comes from a successful uploadFile, leaves the blob in the
  store under the row's backblaze_file_id (next to the thumbnail object, when one was
  made), the row in table files, and the caller's storage_used raised by the file's
  size. On delete the counter follows the row, not the blob: for every caller admitted
  as owner or with edit permission, DELETE /:fileId removes the row and lowers the
  storage_used of the file's owner by the file's size whether deleteFile succeeded or
  threw (the error is caught and logged, and the store is left as it was); and only an
  admitted caller's delete succeeds.
\<close>

theorem quota_commit_after_store_and_row_delete:
  "(uploadFile b (up_uniqueFileName file) = None \<longrightarrow>
      (\<forall>res. upload d b uid folder_id (Some file) \<noteq> Inr res))
   \<and> (\<forall>row d' b'. upload d b uid folder_id (Some file) = Inr (row, d', b') \<longrightarrow>
         (\<exists>b1. uploadFile b (up_uniqueFileName file) = Some (f_backblaze_file_id row, b1))
       \<and> (f_backblaze_file_id row, up_uniqueFileName file) \<in> set (b2_objects b')
       \<and> row \<in> set (files d')
       \<and> storage_used_of d' uid = map (\<lambda>x. x + up_size file) (storage_used_of d uid))
   \<and> (\<forall>f a rest. file_access_rows d caller fileId = (f, a) # rest \<and> owner_or_edit a \<longrightarrow>
         (\<exists>d' b'. delete_file d b caller fileId = Inr (d', b')
            \<and> (\<forall>x \<in> set (files d'). f_id x \<noteq> fileId)
            \<and> storage_used_of d' (f_user_id f)
                = map (\<lambda>x. x - f_size f) (storage_used_of d (f_user_id f))
            \<and> b' = (case deleteFile b (f_backblaze_file_id f) (f_name f) of
                      None \<Rightarrow> b | Some b'' \<Rightarrow> b'')))
   \<and> (\<forall>d' b'. delete_file d b caller fileId = Inr (d', b') \<longrightarrow>
         (\<exists>f a rest. file_access_rows d caller fileId = (f, a) # rest \<and> owner_or_edit a))"
proof (intro conjI allI impI)
  fix res
  assume "uploadFile b (up_uniqueFileName file) = None"
  then show "upload d b uid folder_id (Some file) \<noteq> Inr res" by (rule upload_none)
next
  fix row d' b'
  assume ok: "upload d b uid folder_id (Some file) = Inr (row, d', b')"
  note facts = upload_some [OF ok]
  from facts show "\<exists>b1. uploadFile b (up_uniqueFileName file) = Some (f_backblaze_file_id row, b1)"
    by blast
  from facts show "(f_backblaze_file_id row, up_uniqueFileName file) \<in> set (b2_objects b')"
    by blast
  from facts show "row \<in> set (files d')" by blast
  from facts show "storage_used_of d' uid = map (\<lambda>x. x + up_size file) (storage_used_of d uid)"
    by blast
next
  fix f a rest
  assume "file_access_rows d caller fileId = (f, a) # rest \<and> owner_or_edit a"
  then have rows: "file_access_rows d caller fileId = (f, a) # rest" and adm: "owner_or_edit a"
    by simp_all
  show "\<exists>d' b'. delete_file d b caller fileId = Inr (d', b')
            \<and> (\<forall>x \<in> set (files d'). f_id x \<noteq> fileId)
            \<and> storage_used_of d' (f_user_id f)
                = map (\<lambda>x. x - f_size f) (storage_used_of d (f_user_id f))
            \<and> b' = (case deleteFile b (f_backblaze_file_id f) (f_name f) of
                      None \<Rightarrow> b | Some b'' \<Rightarrow> b'')"
    unfolding delete_file_admitted [OF rows adm]
    by (simp add: storage_used_of_decrease deleteFile_logged_def)
       (simp add: delete_files_row_def)
next
  fix d' b'
  assume "delete_file d b caller fileId = Inr (d', b')"
  then show "\<exists>f a rest. file_access_rows d caller fileId = (f, a) # rest \<and> owner_or_edit a"
    by (rule delete_file_only_admitted)
qed


text \<open>
  C4 as stated fails on delete: the blob deletion of file 10 fails, the object stays in
  the store, and user 1's storage_used still goes from 900000 to 500000.
\<close>

theorem blob_delete_failure_still_decrements:
  "deleteFile failing_b2 10 ''blob10'' = None
   \<and> storage_used_of example_db 1 = [900000]
   \<and> map_sum id (\<lambda>(d', b'). (storage_used_of d' 1, map f_id (files d'), b2_objects b'))
        (delete_file example_db failing_b2 1 10)
      = Inr ([500000], [11, 12, 13], [(10, ''blob10''), (11, ''blob11''), (12, ''blob12''), (13, ''blob13'')])"
  by (simp add: deleteFile_def failing_b2_def example_b2_def storage_used_of_def
        user_storage_rows_def delete_file_def file_access_rows_def left_join_def
        access_level_of_def owner_or_shared_def owner_or_edit_def deleteFile_logged_def
        delete_files_row_def decrease_storage_used_def example_defs)

theorem quota_commit_after_store_and_row_delete_witness:
  "uploadFile failing_b2 (up_uniqueFileName (example_batch ! 1)) = None
   \<and> (\<forall>res. upload example_db failing_b2 1 None (Some (example_batch ! 1)) \<noteq> Inr res)
   \<and> storage_used_of example_db 1 = [900000]
   \<and> (\<exists>row d' b'. upload example_db failing_b2 1 None (Some (example_batch ! 0)) = Inr (row, d', b')
         \<and> (f_backblaze_file_id row, ''uuid-a.txt'') \<in> set (b2_objects b')
         \<and> row \<in> set (files d')
         \<and> storage_used_of d' 1 = [980000])
   \<and> deleteFile failing_b2 10 ''blob10'' = None
   \<and> (\<exists>d' b'. delete_file example_db failing_b2 1 10 = Inr (d', b')
         \<and> storage_used_of d' 1 = [500000] \<and> b' = failing_b2)
   \<and> file_access_rows edit_db 2 10
       = [(example_file 10 1 (Some 1) ''image/png'' 400000, Some (Shared Edit))]
   \<and> (\<exists>d' b'. delete_file edit_db example_b2 2 10 = Inr (d', b')
         \<and> storage_used_of d' 1 = [500000]
         \<and> b2_objects b' = [(11, ''blob11''), (12, ''blob12''), (13, ''blob13'')])"
proof -
  let ?f = "example_file 10 1 (Some 1) ''image/png'' 400000"
  have ids: "f_id ?f = 10" "f_user_id ?f = 1" "f_size ?f = 400000"
    "f_backblaze_file_id ?f = 10" "f_name ?f = ''blob10''"
    by (simp_all add: example_file_def digit_char_def)
  have used: "storage_used_of example_db 1 = [900000]"
    by (simp add: storage_used_of_def user_storage_rows_def example_db_def)
  have used_e: "storage_used_of edit_db 1 = [900000]"
    by (simp add: storage_used_of_def user_storage_rows_def example_db_def edit_db_def)
  have up1: "uploadFile failing_b2 (up_uniqueFileName (example_batch ! 1)) = None"
    by (simp add: uploadFile_def failing_b2_def example_batch_def)
  have sz0: "up_size (example_batch ! 0) = 80000"
    "up_uniqueFileName (example_batch ! 0) = ''uuid-a.txt''"
    by (simp_all add: example_batch_def)
  have ok0: "\<exists>row d' b'. upload example_db failing_b2 1 None (Some (example_batch ! 0)) = Inr (row, d', b')"
    by (simp add: upload_def upload_folder_check_def user_storage_rows_def quota_check_single_def
          uploadFile_def insert_file_def Let_def failing_b2_def example_batch_def example_db_def
          split: prod.splits)
  have del: "deleteFile failing_b2 10 ''blob10'' = None"
    by (simp add: deleteFile_def failing_b2_def)
  have del_e: "deleteFile example_b2 10 ''blob10''
                 = Some (example_b2\<lparr>b2_objects := [(11, ''blob11''), (12, ''blob12''), (13, ''blob13'')]\<rparr>)"
    by (simp add: deleteFile_def example_b2_def)
  have rows_o: "file_access_rows example_db 1 10 = [(?f, Some Owner)]"
    by (simp add: file_access_rows_def left_join_def access_level_of_def owner_or_shared_def
          example_defs)
  have rows_e: "file_access_rows edit_db 2 10 = [(?f, Some (Shared Edit))]"
    by (simp add: file_access_rows_def left_join_def access_level_of_def owner_or_shared_def
          edit_db_def example_defs)
  have adm: "owner_or_edit (Some Owner)" "owner_or_edit (Some (Shared Edit))"
    by (simp_all add: owner_or_edit_def)
  note inst1 = quota_commit_after_store_and_row_delete
    [of failing_b2 "example_batch ! 1" example_db 1 None 1 10]
  note inst0 = quota_commit_after_store_and_row_delete
    [of failing_b2 "example_batch ! 0" example_db 1 None 1 10]
  note inst2 = quota_commit_after_store_and_row_delete
    [of example_b2 "example_batch ! 0" edit_db 1 None 2 10]
  from inst1 up1 have a: "\<forall>res. upload example_db failing_b2 1 None (Some (example_batch ! 1)) \<noteq> Inr res"
    by blast
  from ok0 obtain row d' b' where
    ok: "upload example_db failing_b2 1 None (Some (example_batch ! 0)) = Inr (row, d', b')"
    by blast
  from inst0 ok have "(f_backblaze_file_id row, up_uniqueFileName (example_batch ! 0)) \<in> set (b2_objects b')
       \<and> row \<in> set (files d')
       \<and> storage_used_of d' 1 = map (\<lambda>x. x + up_size (example_batch ! 0)) (storage_used_of example_db 1)"
    by blast
  with ok used sz0 have b: "\<exists>row d' b'. upload example_db failing_b2 1 None (Some (example_batch ! 0)) = Inr (row, d', b')
         \<and> (f_backblaze_file_id row, ''uuid-a.txt'') \<in> set (b2_objects b')
         \<and> row \<in> set (files d')
         \<and> storage_used_of d' 1 = [980000]"
    by auto
  from inst0 rows_o adm(1) have "\<exists>d' b'. delete_file example_db failing_b2 1 10 = Inr (d', b')
            \<and> storage_used_of d' (f_user_id ?f)
                = map (\<lambda>x. x - f_size ?f) (storage_used_of example_db (f_user_id ?f))
            \<and> b' = (case deleteFile failing_b2 (f_backblaze_file_id ?f) (f_name ?f) of
                      None \<Rightarrow> failing_b2 | Some b'' \<Rightarrow> b'')"
    by blast
  with ids used del have c: "\<exists>d' b'. delete_file example_db failing_b2 1 10 = Inr (d', b')
         \<and> storage_used_of d' 1 = [500000] \<and> b' = failing_b2"
    by auto
  from inst2 rows_e adm(2) have "\<exists>d' b'. delete_file edit_db example_b2 2 10 = Inr (d', b')
            \<and> storage_used_of d' (f_user_id ?f)
                = map (\<lambda>x. x - f_size ?f) (storage_used_of edit_db (f_user_id ?f))
            \<and> b' = (case deleteFile example_b2 (f_backblaze_file_id ?f) (f_name ?f) of
                      None \<Rightarrow> example_b2 | Some b'' \<Rightarrow> b'')"
    by blast
  with ids used_e del_e have e: "\<exists>d' b'. delete_file edit_db example_b2 2 10 = Inr (d', b')
         \<and> storage_used_of d' 1 = [500000]
         \<and> b2_objects b' = [(11, ''blob11''), (12, ''blob12''), (13, ''blob13'')]"
    by auto
  from up1 a used b del c rows_e e show ?thesis by blast
qed

section \<open>Delivery disposition: theorems\<close>

lemma public_access_disposition:
  assumes "public_access d r shareToken = Inr (dl, d', r')"
  shows "\<exists>name. content_disposition dl =
           Some (if inline_type (content_type dl) then inline else attachment, name)"
  using assms
  by (auto simp: public_access_def Let_def split: option.splits list.splits sum.splits)

lemma view_refuses:
  assumes "file_access_rows d userId fileId = (file, a) # rest"
    and "\<not> isSupported (f_mime_type file)"
  shows "view d (Verified userId) fileId = Inl (Status 400 ''File type not supported for inline viewing'')"
  using assms by (simp add: view_def)


lemma download_of_file:
  assumes "download d cred fileId = Inr (dl, d')"
  shows "\<exists>file \<in> set (files d). f_id file = fileId \<and> content_type dl = f_mime_type file
           \<and> content_disposition dl = Some (attachment, f_original_name file)"
proof -
  from assms obtain userId x a rest where
    rows: "file_access_rows d userId fileId = (x, a) # rest"
    and dl: "dl = \<lparr>content_type = f_mime_type x,
                    content_disposition = Some (attachment, f_original_name x),
                    object_name = f_name x\<rparr>"
    by (auto simp: download_def split: credentials.splits list.splits)
  from rows have "(x, a) \<in> set (file_access_rows d userId fileId)" by simp
  from file_access_rows_mem [OF this] dl show ?thesis by auto
qed

lemma view_of_file:
  assumes "view d cred fileId = Inr dl"
  shows "\<exists>file \<in> set (files d). f_id file = fileId \<and> content_type dl = f_mime_type file
           \<and> isSupported (f_mime_type file)
           \<and> content_disposition dl =
               (if inline_type (f_mime_type file) then Some (inline, f_original_name file) else None)"
proof -
  from assms obtain userId x a rest where
    rows: "file_access_rows d userId fileId = (x, a) # rest"
    and sup: "isSupported (f_mime_type x)"
    and dl: "dl = \<lparr>content_type = f_mime_type x,
                    content_disposition =
                      (if inline_type (f_mime_type x)
                       then Some (inline, f_original_name x) else None),
                    object_name = f_name x\<rparr>"
    by (auto simp: view_def split: credentials.splits list.splits if_splits)
  from rows have "(x, a) \<in> set (file_access_rows d userId fileId)" by simp
  from file_access_rows_mem [OF this] dl sup show ?thesis by auto
qed

lemma public_access_of_file:
  assumes "public_access d r shareToken = Inr (dl, d', r')"
    and miss: "getPublicShare r shareToken = None"
  shows "\<exists>file \<in> set (files d). f_public_share_token file = Some shareToken \<and> f_is_public file
           \<and> content_type dl = f_mime_type file
           \<and> content_disposition dl =
               Some (if inline_type (f_mime_type file) then inline else attachment,
                     f_original_name file)"
proof (cases "filter (\<lambda>f. f_public_share_token f = Some shareToken \<and> f_is_public f) (files d)")
  case Nil
  with assms show ?thesis by (simp add: public_access_def)
next
  case (Cons x rest)
  then have "x \<in> set (filter (\<lambda>f. f_public_share_token f = Some shareToken \<and> f_is_public f) (files d))"
    by simp
  then have mem: "x \<in> set (files d)" "f_public_share_token x = Some shareToken" "f_is_public x"
    by simp_all
  from assms Cons have "content_type dl = f_mime_type x
      \<and> content_disposition dl =
               Some (if inline_type (f_mime_type x) then inline else attachment,
                     f_original_name x)"
    by (auto simp: public_access_def Let_def shareData_of_def split: list.splits)
  with mem show ?thesis by blast
qed


lemma isSupported_cases:
  "isSupported mime \<longleftrightarrow> inline_type mime \<or> prefix ''application/pdf'' mime"
  by (auto simp: isSupported_def inline_type_def)

lemma download_closed:
  assumes "file_access_rows d userId fileId = (x, a) # rest"
  shows "download d (Verified userId) fileId
           = Inr (\<lparr>content_type = f_mime_type x,
                   content_disposition = Some (attachment, f_original_name x),
                   object_name = f_name x\<rparr>, count_download d fileId)"
  using assms by (simp add: download_def)

lemma view_closed:
  assumes "file_access_rows d userId fileId = (x, a) # rest"
  shows "view d (Verified userId) fileId
           = (if inline_type (f_mime_type x)
              then Inr \<lparr>content_type = f_mime_type x,
                       content_disposition = Some (inline, f_original_name x),
                       object_name = f_name x\<rparr>
              else if prefix ''application/pdf'' (f_mime_type x)
              then Inr \<lparr>content_type = f_mime_type x,
                       content_disposition = None,
                       object_name = f_name x\<rparr>
              else Inl (Status 400 ''File type not supported for inline viewing''))"
  using assms by (simp add: view_def isSupported_cases)

text \<open>
  C8, as the code has it. Public-token delivery (GET /public/:shareToken) sends
  Content-Disposition inline exactly when the MIME type starts with image/ or video/ or
  is equal to application/pdf, and attachment for every other type. Authenticated
  delivery does not apply this policy: GET /:fileId/download always sends attachment,
  whatever the type; GET /:fileId/view sends inline for those three classes, serves a
  type that starts with application/pdf without being equal to it with no
  Content-Disposition header at all, and refuses every other type with status 400.
\<close>

theorem delivery_disposition_by_route:
  "(\<forall>dl d' r'. public_access d r shareToken = Inr (dl, d', r') \<longrightarrow>
       (\<exists>name. content_disposition dl =
          Some (if inline_type (content_type dl) then inline else attachment, name))
     \<and> (getPublicShare r shareToken = None \<longrightarrow>
          (\<exists>file \<in> set (files d). f_public_share_token file = Some shareToken \<and> f_is_public file
             \<and> content_type dl = f_mime_type file
             \<and> content_disposition dl =
                 Some (if inline_type (f_mime_type file) then inline else attachment,
                       f_original_name file))))
   \<and> (\<forall>x a rest. file_access_rows d userId fileId = (x, a) # rest \<longrightarrow>
         download d (Verified userId) fileId
           = Inr (\<lparr>content_type = f_mime_type x,
                   content_disposition = Some (attachment, f_original_name x),
                   object_name = f_name x\<rparr>, count_download d fileId)
       \<and> view d (Verified userId) fileId
           = (if inline_type (f_mime_type x)
              then Inr \<lparr>content_type = f_mime_type x,
                       content_disposition = Some (inline, f_original_name x),
                       object_name = f_name x\<rparr>
              else if prefix ''application/pdf'' (f_mime_type x)
              then Inr \<lparr>content_type = f_mime_type x,
                       content_disposition = None,
                       object_name = f_name x\<rparr>
              else Inl (Status 400 ''File type not supported for inline viewing'')))
   \<and> (\<forall>dl d'. download d cred fileId = Inr (dl, d') \<longrightarrow>
         (\<exists>file \<in> set (files d). f_id file = fileId \<and> content_type dl = f_mime_type file
            \<and> content_disposition dl = Some (attachment, f_original_name file)))
   \<and> (\<forall>dl. view d cred fileId = Inr dl \<longrightarrow>
         (\<exists>file \<in> set (files d). f_id file = fileId \<and> content_type dl = f_mime_type file
            \<and> isSupported (f_mime_type file)
            \<and> content_disposition dl =
                (if inline_type (f_mime_type file) then Some (inline, f_original_name file)
                 else None)))
   \<and> (inline_type mime \<longleftrightarrow>
         prefix ''image/'' mime \<or> prefix ''video/'' mime \<or> mime = ''application/pdf'')
   \<and> (isSupported mime \<longleftrightarrow> inline_type mime \<or> prefix ''application/pdf'' mime)"
proof (intro conjI allI impI)
  fix dl d' r'
  assume pa: "public_access d r shareToken = Inr (dl, d', r')"
  from public_access_disposition [OF pa]
  show "\<exists>name. content_disposition dl =
          Some (if inline_type (content_type dl) then inline else attachment, name)" .
  assume "getPublicShare r shareToken = None"
  from public_access_of_file [OF pa this]
  show "\<exists>file \<in> set (files d). f_public_share_token file = Some shareToken \<and> f_is_public file
             \<and> content_type dl = f_mime_type file
             \<and> content_disposition dl =
                 Some (if inline_type (f_mime_type file) then inline else attachment,
                       f_original_name file)" .
next
  fix x a rest
  assume rows: "file_access_rows d userId fileId = (x, a) # rest"
  from download_closed [OF rows]
  show "download d (Verified userId) fileId
           = Inr (\<lparr>content_type = f_mime_type x,
                   content_disposition = Some (attachment, f_original_name x),
                   object_name = f_name x\<rparr>, count_download d fileId)" .
  from view_closed [OF rows]
  show "view d (Verified userId) fileId
           = (if inline_type (f_mime_type x)
              then Inr \<lparr>content_type = f_mime_type x,
                       content_disposition = Some (inline, f_original_name x),
                       object_name = f_name x\<rparr>
              else if prefix ''application/pdf'' (f_mime_type x)
              then Inr \<lparr>content_type = f_mime_type x,
                       content_disposition = None,
                       object_name = f_name x\<rparr>
              else Inl (Status 400 ''File type not supported for inline viewing''))" .
next
  fix dl d'
  assume "download d cred fileId = Inr (dl, d')"
  from download_of_file [OF this]
  show "\<exists>file \<in> set (files d). f_id file = fileId \<and> content_type dl = f_mime_type file
            \<and> content_disposition dl = Some (attachment, f_original_name file)" .
next
  fix dl
  assume "view d cred fileId = Inr dl"
  from view_of_file [OF this]
  show "\<exists>file \<in> set (files d). f_id file = fileId \<and> content_type dl = f_mime_type file
            \<and> isSupported (f_mime_type file)
            \<and> content_disposition dl =
                (if inline_type (f_mime_type file) then Some (inline, f_original_name file)
                 else None)" .
next
  show "inline_type mime \<longleftrightarrow>
         prefix ''image/'' mime \<or> prefix ''video/'' mime \<or> mime = ''application/pdf''"
    by (simp add: inline_type_def)
next
  show "isSupported mime \<longleftrightarrow> inline_type mime \<or> prefix ''application/pdf'' mime"
    by (rule isSupported_cases)
qed

text \<open>
  C8 as stated fails: file 10 is image/png; its owner's download is sent as attachment,
  and the public link of the same file is sent inline.
\<close>

theorem same_file_differs_by_route:
  "f_mime_type (example_file 10 1 (Some 1) ''image/png'' 400000) = ''image/png''
   \<and> map_sum id (\<lambda>(dl, _). (content_type dl, content_disposition dl))
        (download shared_db (Verified 1) 10)
      = Inr (''image/png'', Some (attachment, ''file10''))
   \<and> map_sum id (\<lambda>(dl, _). (content_type dl, content_disposition dl))
        (public_access shared_db shared_redis ''token-10'')
      = Inr (''image/png'', Some (inline, ''file10''))"
  by (simp add: share_eval_defs)


theorem delivery_disposition_by_route_witness:
  "(\<exists>dl d' r'. public_access pdf_variant_db example_redis ''token-10'' = Inr (dl, d', r')
       \<and> getPublicShare example_redis ''token-10'' = None
       \<and> content_type dl = ''image/png''
       \<and> content_disposition dl = Some (inline, ''file10''))
   \<and> map_sum id (\<lambda>(dl, _). (content_type dl, content_disposition dl))
        (download pdf_variant_db (Verified 1) 10)
       = Inr (''image/png'', Some (attachment, ''file10''))
   \<and> map_sum id (\<lambda>dl. (content_type dl, content_disposition dl))
        (view pdf_variant_db (Verified 1) 10)
       = Inr (''image/png'', Some (inline, ''file10''))
   \<and> view pdf_variant_db (Verified 2) 11
       = Inl (Status 400 ''File type not supported for inline viewing'')
   \<and> map_sum id (\<lambda>dl. (content_type dl, content_disposition dl))
        (view pdf_variant_db (Verified 1) 14)
       = Inr (''application/pdfx'', None)
   \<and> map_sum id (\<lambda>(dl, _). (content_type dl, content_disposition dl))
        (download pdf_variant_db (Verified 1) 14)
       = Inr (''application/pdfx'', Some (attachment, ''file14''))
   \<and> inline_type ''image/png'' \<and> \<not> inline_type ''text/plain''
   \<and> \<not> inline_type ''application/pdfx'' \<and> isSupported ''application/pdfx''"
proof -
  let ?f10 = "(example_file 10 1 (Some 1) ''image/png'' 400000)
                \<lparr>f_public_share_token := Some ''token-10'', f_is_public := True\<rparr>"
  let ?f11 = "example_file 11 2 (Some 1) ''text/plain'' 50000"
  let ?f14 = "example_file 14 1 None ''application/pdfx'' 1000"
  note inst10 = delivery_disposition_by_route
                [of pdf_variant_db example_redis "''token-10''" 1 10 "Verified 1" "''image/png''"]
  note inst11 = delivery_disposition_by_route
                [of pdf_variant_db example_redis "''token-10''" 2 11 "Verified 2" "''text/plain''"]
  note inst14 = delivery_disposition_by_route
                [of pdf_variant_db example_redis "''token-10''" 1 14 "Verified 1" "''application/pdfx''"]
  have files: "files pdf_variant_db =
      [?f10, ?f11,
       example_file 12 1 None ''application/pdf'' 300000,
       example_file 13 1 (Some 2) ''video/mp4'' 200000, ?f14]"
    by (simp add: pdf_variant_db_def share_eval_defs)
  have rows10: "file_access_rows pdf_variant_db 1 10 = (?f10, Some Owner) # []"
    by (simp add: pdf_variant_db_def share_eval_defs)
  have rows11: "file_access_rows pdf_variant_db 2 11 = (?f11, Some Owner) # []"
    by (simp add: pdf_variant_db_def share_eval_defs)
  have rows14: "file_access_rows pdf_variant_db 1 14 = (?f14, Some Owner) # []"
    by (simp add: pdf_variant_db_def share_eval_defs)
  have types: "f_mime_type ?f10 = ''image/png''" "f_mime_type ?f11 = ''text/plain''"
    "f_mime_type ?f14 = ''application/pdfx''"
    "f_original_name ?f10 = ''file10''" "f_original_name ?f14 = ''file14''"
    by (simp_all add: example_file_def digit_char_def)
  have classes: "inline_type ''image/png''" "\<not> inline_type ''text/plain''"
    "\<not> inline_type ''application/pdfx''"
    "\<not> prefix ''application/pdf'' ''text/plain''"
    "prefix ''application/pdf'' ''application/pdfx''"
    by (simp_all add: inline_type_def)
  from inst14 classes have sup: "isSupported ''application/pdfx''" by blast
  have miss: "getPublicShare example_redis ''token-10'' = None"
    by (simp add: getPublicShare_def redis_get_def example_redis_def)
  have ev_p: "\<exists>dl d' r'. public_access pdf_variant_db example_redis ''token-10'' = Inr (dl, d', r')"
    by (simp add: pdf_variant_db_def share_eval_defs)
  from ev_p obtain dl1 d1 r1 where
    p: "public_access pdf_variant_db example_redis ''token-10'' = Inr (dl1, d1, r1)" by blast
  with inst10 miss obtain x1 where
    "x1 \<in> set (files pdf_variant_db)" "f_public_share_token x1 = Some ''token-10''"
    "content_type dl1 = f_mime_type x1"
    "content_disposition dl1 =
       Some (if inline_type (f_mime_type x1) then inline else attachment, f_original_name x1)"
    by blast
  then have p': "content_type dl1 = ''image/png'' \<and> content_disposition dl1 = Some (inline, ''file10'')"
    unfolding files by (auto simp: example_file_def inline_type_def digit_char_def)
  from inst10 rows10 have "download pdf_variant_db (Verified 1) 10
           = Inr (\<lparr>content_type = f_mime_type ?f10,
                   content_disposition = Some (attachment, f_original_name ?f10),
                   object_name = f_name ?f10\<rparr>, count_download pdf_variant_db 10)"
    by blast
  then have d10: "map_sum id (\<lambda>(dl, _). (content_type dl, content_disposition dl))
        (download pdf_variant_db (Verified 1) 10)
       = Inr (''image/png'', Some (attachment, ''file10''))"
    using types by simp
  from inst10 rows10 have "view pdf_variant_db (Verified 1) 10
           = (if inline_type (f_mime_type ?f10)
              then Inr \<lparr>content_type = f_mime_type ?f10,
                       content_disposition = Some (inline, f_original_name ?f10),
                       object_name = f_name ?f10\<rparr>
              else if prefix ''application/pdf'' (f_mime_type ?f10)
              then Inr \<lparr>content_type = f_mime_type ?f10,
                       content_disposition = None,
                       object_name = f_name ?f10\<rparr>
              else Inl (Status 400 ''File type not supported for inline viewing''))"
    by blast
  then have v10: "map_sum id (\<lambda>dl. (content_type dl, content_disposition dl))
        (view pdf_variant_db (Verified 1) 10)
       = Inr (''image/png'', Some (inline, ''file10''))"
    using types classes by simp
  from inst11 rows11 have "view pdf_variant_db (Verified 2) 11
           = (if inline_type (f_mime_type ?f11)
              then Inr \<lparr>content_type = f_mime_type ?f11,
                       content_disposition = Some (inline, f_original_name ?f11),
                       object_name = f_name ?f11\<rparr>
              else if prefix ''application/pdf'' (f_mime_type ?f11)
              then Inr \<lparr>content_type = f_mime_type ?f11,
                       content_disposition = None,
                       object_name = f_name ?f11\<rparr>
              else Inl (Status 400 ''File type not supported for inline viewing''))"
    by blast
  then have v11: "view pdf_variant_db (Verified 2) 11
       = Inl (Status 400 ''File type not supported for inline viewing'')"
    using types classes by simp
  from inst14 rows14 have "view pdf_variant_db (Verified 1) 14
           = (if inline_type (f_mime_type ?f14)
              then Inr \<lparr>content_type = f_mime_type ?f14,
                       content_disposition = Some (inline, f_original_name ?f14),
                       object_name = f_name ?f14\<rparr>
              else if prefix ''application/pdf'' (f_mime_type ?f14)
              then Inr \<lparr>content_type = f_mime_type ?f14,
                       content_disposition = None,
                       object_name = f_name ?f14\<rparr>
              else Inl (Status 400 ''File type not supported for inline viewing''))"
    by blast
  then have v14: "map_sum id (\<lambda>dl. (content_type dl, content_disposition dl))
        (view pdf_variant_db (Verified 1) 14)
       = Inr (''application/pdfx'', None)"
    using types classes by simp
  from inst14 rows14 have "download pdf_variant_db (Verified 1) 14
           = Inr (\<lparr>content_type = f_mime_type ?f14,
                   content_disposition = Some (attachment, f_original_name ?f14),
                   object_name = f_name ?f14\<rparr>, count_download pdf_variant_db 14)"
    by blast
  then have d14: "map_sum id (\<lambda>(dl, _). (content_type dl, content_disposition dl))
        (download pdf_variant_db (Verified 1) 14)
       = Inr (''application/pdfx'', Some (attachment, ''file14''))"
    using types by simp
  from p p' miss have pub: "\<exists>dl d' r'. public_access pdf_variant_db example_redis ''token-10'' = Inr (dl, d', r')
       \<and> getPublicShare example_redis ''token-10'' = None
       \<and> content_type dl = ''image/png''
       \<and> content_disposition dl = Some (inline, ''file10'')"
    by blast
  from pub d10 v10 v11 v14 d14 classes(1,2,3) sup show ?thesis
    by (intro conjI)
qed

section \<open>Mixed bulk delete: theorems\<close>

lemma backblaze_module_missing: "\<not> require_resolves ''services/backblaze''"
  by (simp add: require_resolves_def repository_modules_def)

lemma mixed_file_loop_module_missing:
  "mixed_delete_each_file False fs (del, fl, d, b) = (del, fl @ map f_id fs, d, b)"
  by (induction fs arbitrary: fl) simp_all

lemma mixed_folder_loop_frame:
  "mixed_delete_each_folder fs (del, ne, d) = (del', ne', d')
     \<Longrightarrow> users d' = users d \<and> files d' = files d"
proof (induction fs arbitrary: del ne d)
  case Nil
  then show ?case by simp
next
  case (Cons x rest)
  then show ?case by (auto simp: Let_def split: if_splits)
qed

lemma bulk_delete_mixed_deletes_no_file:
  assumes "bulk_delete_mixed d b uid fileIds folderIds = Inr (st, fr, fo, d', b')"
  shows "deleted fr = [] \<and> files d' = files d \<and> users d' = users d \<and> b' = b"
proof -
  let ?del = "map fst (filter (\<lambda>(f, a). owner_or_edit a)
                (if fileIds = [] then [] else files_access_rows_in d uid fileIds))"
  have loop: "mixed_delete_each_file (require_resolves ''services/backblaze'') ?del ([], [], d, b)
                = ([], map f_id ?del, d, b)"
    using backblaze_module_missing by (simp add: mixed_file_loop_module_missing)
  obtain odel one d2 where
    folders: "mixed_delete_each_folder
                (map fst (filter (\<lambda>(f, a). a = Some Owner)
                   (if folderIds = [] then [] else folders_access_rows_in d uid folderIds)))
                ([], [], d) = (odel, one, d2)"
    by (rule prod_cases3)
  from mixed_folder_loop_frame [OF folders]
  have frame: "users d2 = users d" "files d2 = files d" by simp_all
  from assms have "deleted fr = [] \<and> d' = d2 \<and> b' = b"
    unfolding bulk_delete_mixed_def Let_def loop
    by (auto simp: folders split: if_splits)
  with frame show ?thesis by simp
qed

text \<open>
  C10 at a concrete request. User 1 owns file 10 (400000 bytes) and calls
  DELETE /bulk/mixed with fileIds = [10] and no folder. The path
  \<open>../services/backblaze\<close> named in the file loop is no module of the repository
  (the object store is \<open>config/backblaze\<close>, as routes/files.js requires it), so the
  per-file try block fails at its first statement: file 10 is reported under failed,
  its row and its object stay, and storage_used (900000) is still the sum of user 1's
  file sizes. DELETE /:fileId on the same state removes row and object and takes the
  400000 bytes off.
\<close>

theorem mixed_bulk_delete_deletes_nothing:
  "\<not> require_resolves ''services/backblaze''
   \<and> require_resolves ''config/backblaze''
   \<and> map_sum id (\<lambda>(st, fr, fo, d', b').
          (st, deleted fr, delete_failed fr, map f_id (files d'),
           storage_used_of d' 1, actual_used d' 1, b2_objects b'))
        (bulk_delete_mixed example_db example_b2 1 [10] [])
      = Inr (200, [], [10], [10, 11, 12, 13], [900000], 900000,
             [(10, ''blob10''), (11, ''blob11''), (12, ''blob12''), (13, ''blob13'')])
   \<and> map_sum id (\<lambda>(d', b').
          (map f_id (files d'), storage_used_of d' 1, actual_used d' 1, b2_objects b'))
        (delete_file example_db example_b2 1 10)
      = Inr ([11, 12, 13], [500000], 500000,
             [(11, ''blob11''), (12, ''blob12''), (13, ''blob13'')])"
proof -
  have a: "\<not> require_resolves ''services/backblaze''"
    by (simp add: require_resolves_def repository_modules_def)
  have b: "require_resolves ''config/backblaze''"
    by (simp add: require_resolves_def repository_modules_def)
  have rows: "files_access_rows_in example_db 1 [10]
                = [(example_file 10 1 (Some 1) ''image/png'' 400000, Some Owner)]"
    by (simp add: files_access_rows_in_def left_join_def access_level_of_def owner_or_shared_def
          example_defs)
  have c: "map_sum id (\<lambda>(st, fr, fo, d', b').
          (st, deleted fr, delete_failed fr, map f_id (files d'),
           storage_used_of d' 1, actual_used d' 1, b2_objects b'))
        (bulk_delete_mixed example_db example_b2 1 [10] [])
      = Inr (200, [], [10], [10, 11, 12, 13], [900000], 900000,
             [(10, ''blob10''), (11, ''blob11''), (12, ''blob12''), (13, ''blob13'')])"
    unfolding bulk_delete_mixed_def Let_def rows
    using a
    by (simp add: owner_or_edit_def mixed_file_loop_module_missing)
       (simp add: storage_used_of_def user_storage_rows_def actual_used_def example_b2_def
          example_defs)
  have d: "map_sum id (\<lambda>(d', b').
          (map f_id (files d'), storage_used_of d' 1, actual_used d' 1, b2_objects b'))
        (delete_file example_db example_b2 1 10)
      = Inr ([11, 12, 13], [500000], 500000,
             [(11, ''blob11''), (12, ''blob12''), (13, ''blob13'')])"
    by (simp add: deleteFile_def storage_used_of_def actual_used_def example_b2_def digit_char_def
        user_storage_rows_def delete_file_def file_access_rows_def left_join_def
        access_level_of_def owner_or_shared_def owner_or_edit_def deleteFile_logged_def
        delete_files_row_def decrease_storage_used_def example_defs)
  from a b c d show ?thesis by (intro conjI)
qed

end
